theory Spec2Isabelle
  imports Main
begin

section \<open>AmazonImageSelectInput: data model\<close>

text \<open>
  The embedding follows \<^verbatim>\<open>AmazonImageSelectInput.tsx\<close>. An \<^verbatim>\<open>IAmazonImage\<close> is an
  immutable record; its \<^verbatim>\<open>amis\<close> object is a map from region to the list of identifiers
  and its \<^verbatim>\<open>attributes\<close> object a map from attribute name to value. A reference that
  may be \<^verbatim>\<open>null\<close> or \<^verbatim>\<open>undefined\<close> is a value of \<open>'a js\<close>. Strings are the
  declared \<^verbatim>\<open>string\<close> type: the only falsy string is the empty one.
\<close>

record image =
  imageName :: string
  amis :: "string \<rightharpoonup> string list"
  attributes :: "string \<rightharpoonup> string"

datatype 'a js = Null | Undefined | Obj 'a

text \<open>
  A promise is modelled by the value it settles with: \<open>Inl\<close> a rejection, \<open>Inr\<close> the
  resolved value. A rejection is either a failure reported by the image reader or the
  \<^verbatim>\<open>TypeError\<close> JavaScript throws on a property read of \<^verbatim>\<open>undefined\<close>.
\<close>

datatype failure = Rejected string | TypeError

type_synonym 'a promise = "failure + 'a"

text \<open>
  The collaborators the component calls but does not define: the two methods of
  \<^verbatim>\<open>AwsImageReader\<close> (what the network answers to a call) and the collation of
  \<^verbatim>\<open>String.prototype.localeCompare\<close>. JavaScript compares objects by reference, and
  images are values here: which two image values are one and the same object is left to
  the environment as well (\<open>sameObject\<close>). Every function below takes them as a parameter.
  A function that may call the reader returns the calls it issued, in order, together
  with the value of its promise.
\<close>

record env =
  findImages :: "string \<Rightarrow> image list promise"
  getImage :: "string \<Rightarrow> string \<Rightarrow> string \<Rightarrow> image js promise"
  localeCompare :: "string \<Rightarrow> string \<Rightarrow> int"
  sameObject :: "image \<Rightarrow> image \<Rightarrow> bool"

datatype call = FindImages string | GetImage string string string

type_synonym 'a fetch = "call list \<times> 'a promise"

record application =
  name :: string

subsection \<open>JavaScript string and array primitives\<close>

text \<open>\<^verbatim>\<open>s.split(c)\<close> for a one-character separator: always at least one segment.\<close>

fun split :: "char \<Rightarrow> string \<Rightarrow> string list" where
  "split sep [] = [[]]"
| "split sep (c # cs) =
     (if c = sep then [] # split sep cs
      else (case split sep cs of
              [] \<Rightarrow> [[c]]
            | w # ws \<Rightarrow> (c # w) # ws))"

text \<open>\<^verbatim>\<open>parts.join(s)\<close>.\<close>

fun join :: "string \<Rightarrow> string list \<Rightarrow> string" where
  "join s [] = []"
| "join s [w] = w"
| "join s (w # ws) = w @ s @ join s ws"

text \<open>\<^verbatim>\<open>s.replace(/c/g, r)\<close> for a one-character pattern.\<close>

definition replaceAll :: "char \<Rightarrow> string \<Rightarrow> string \<Rightarrow> string" where
  "replaceAll c r s = concat (map (\<lambda>x. if x = c then r else [x]) s)"

text \<open>
  \<^verbatim>\<open>xs.sort(cmp)\<close>: the sort is stable, so for a consistent comparator it is the
  insertion sort that puts an element before the first one it is smaller than or equal to.
\<close>

fun insertBy :: "('a \<Rightarrow> 'a \<Rightarrow> int) \<Rightarrow> 'a \<Rightarrow> 'a list \<Rightarrow> 'a list" where
  "insertBy cmp x [] = [x]"
| "insertBy cmp x (y # ys) = (if cmp x y \<le> 0 then x # y # ys else y # insertBy cmp x ys)"

definition sortBy :: "('a \<Rightarrow> 'a \<Rightarrow> int) \<Rightarrow> 'a list \<Rightarrow> 'a list" where
  "sortBy cmp xs = foldr (insertBy cmp) xs []"

section \<open>The pure functions of the component\<close>

text \<open>\<^verbatim>\<open>makeFakeImage\<close> (lines 45-55).\<close>

definition makeFakeImage :: "string \<Rightarrow> string \<Rightarrow> string \<Rightarrow> image js" where
  "makeFakeImage imgName imageId region =
     (if imgName = [] \<and> imageId = [] then Null
      else Obj \<lparr> imageName = imgName,
                 amis = [region \<mapsto> [imageId]],
                 attributes = [''virtualizationType'' \<mapsto> ''*''] \<rparr>)"

text \<open>\<^verbatim>\<open>loadImagesFromApplicationName\<close> (lines 57-60); the replacement text is \<^verbatim>\<open>[_\-]\<close>.\<close>

definition loadImagesFromApplicationName :: "env \<Rightarrow> application \<Rightarrow> image list fetch" where
  "loadImagesFromApplicationName e app =
     (let query = replaceAll CHR ''_'' [CHR ''['', CHR ''_'', CHR 0x5C, CHR ''-'', CHR '']''] (name app)
                  @ ''*''
      in ([FindImages query], findImages e query))"

text \<open>
  \<^verbatim>\<open>buildQueryForSimilarImages\<close> (lines 62-73); \<open>None\<close> is the \<^verbatim>\<open>null\<close> it returns.
  \<open>beforeUnderscore\<close> is \<^verbatim>\<open>imageName.split('_')[0]\<close> of line 64.
\<close>

definition beforeUnderscore :: "string \<Rightarrow> string" where
  "beforeUnderscore imgName = (case split CHR ''_'' imgName of [] \<Rightarrow> [] | b # _ \<Rightarrow> b)"

definition buildQueryForSimilarImages :: "string \<Rightarrow> string option" where
  "buildQueryForSimilarImages imgName =
     (let packageBase0 = beforeUnderscore imgName;
          parts = split CHR ''-'' packageBase0;
          truncate = (length parts > 3);
          packageBase = (if truncate then join ''-'' (take (length parts - 3) parts)
                         else packageBase0);
          addDashToQuery = truncate;
          tooShort = (packageBase = [] \<or> length packageBase < 3)
      in if tooShort then None
         else Some (packageBase @ (if addDashToQuery then ''-*'' else ''*'')))"

text \<open>
  \<^verbatim>\<open>findImagesSimilarTo\<close> (lines 75-94). The test of line 87 is written as in the source:
  it looks for an image whose name \<^emph>\<open>differs\<close> from the exact image's name.
\<close>

definition findImagesSimilarTo :: "env \<Rightarrow> image js \<Rightarrow> image list fetch" where
  "findImagesSimilarTo e exactImage =
     (case exactImage of
        Null \<Rightarrow> ([], Inr [])
      | Undefined \<Rightarrow> ([], Inl TypeError)
      | Obj exact \<Rightarrow>
          (case buildQueryForSimilarImages (imageName exact) of
             None \<Rightarrow> ([], Inr [exact])
           | Some similarImagesQuery \<Rightarrow>
               ([FindImages similarImagesQuery],
                case findImages e similarImagesQuery of
                  Inl err \<Rightarrow> Inl err
                | Inr similarImages \<Rightarrow>
                    (let similarImages' =
                           (if find (\<lambda>img. imageName img \<noteq> imageName exact) similarImages = None
                            then similarImages @ [exact] else similarImages)
                     in Inr (sortBy (\<lambda>a b. localeCompare e (imageName a) (imageName b))
                               similarImages')))))"

text \<open>\<^verbatim>\<open>loadImagesFromImageId\<close> (lines 96-101): every rejection of the chain becomes \<^verbatim>\<open>[]\<close>.\<close>

definition loadImagesFromImageId :: "env \<Rightarrow> string \<Rightarrow> string \<Rightarrow> string \<Rightarrow> image list fetch" where
  "loadImagesFromImageId e imageId region credentials =
     (case getImage e imageId region credentials of
        Inl err \<Rightarrow> ([GetImage imageId region credentials], Inr [])
      | Inr img \<Rightarrow>
          (case findImagesSimilarTo e img of
             (calls, Inl err) \<Rightarrow> (GetImage imageId region credentials # calls, Inr [])
           | (calls, Inr images) \<Rightarrow> (GetImage imageId region credentials # calls, Inr images)))"

text \<open>\<^verbatim>\<open>searchForImages\<close> (lines 103-106).\<close>

definition searchForImages :: "env \<Rightarrow> string \<Rightarrow> image list fetch" where
  "searchForImages e query =
     (let hasMinLength = (query \<noteq> [] \<and> length query \<ge> 3)
      in if hasMinLength then ([FindImages query], findImages e query) else ([], Inr []))"

text \<open>
  \<^verbatim>\<open>fetchPackageImages\<close> (lines 108-119). \<open>imageId\<close> is the first identifier of the
  value in the region when that chain of \<^verbatim>\<open>&&\<close> is truthy.
\<close>

definition firstImageId :: "image js \<Rightarrow> string \<Rightarrow> string option" where
  "firstImageId v region =
     (case v of
        Obj img \<Rightarrow>
          (case amis img region of
             Some (i # _) \<Rightarrow> (if i = [] then None else Some i)
           | _ \<Rightarrow> None)
      | _ \<Rightarrow> None)"

definition fetchPackageImages ::
  "env \<Rightarrow> image js \<Rightarrow> string \<Rightarrow> string \<Rightarrow> application \<Rightarrow> image list fetch" where
  "fetchPackageImages e v region credentials app =
     (case firstImageId v region of
        Some imageId \<Rightarrow> loadImagesFromImageId e imageId region credentials
      | None \<Rightarrow> loadImagesFromApplicationName e app)"

text \<open>
  The test \<^verbatim>\<open>/ami-[0-9a-f]{8,17}/.exec(searchString)\<close> of line 166. The expression is
  not anchored: it succeeds when, at some position, \<^verbatim>\<open>ami-\<close> is followed by at least
  eight characters of \<^verbatim>\<open>[0-9a-f]\<close>.
\<close>

definition isHexLower :: "char \<Rightarrow> bool" where
  "isHexLower c = (c \<in> set ''0123456789abcdef'')"

definition amiRegexAt :: "string \<Rightarrow> bool" where
  "amiRegexAt s = (take 4 s = ''ami-'' \<and> 8 \<le> length (takeWhile isHexLower (drop 4 s)))"

fun amiRegexExec :: "string \<Rightarrow> bool" where
  "amiRegexExec [] = False"
| "amiRegexExec (c # cs) = (amiRegexAt (c # cs) \<or> amiRegexExec cs)"

text \<open>
  The identifier pattern in the words of the specification: the literal \<^verbatim>\<open>ami-\<close>
  followed by 8 to 17 hexadecimal characters (the digits of the expression above).
\<close>

definition isAmiIdentifier :: "string \<Rightarrow> bool" where
  "isAmiIdentifier s =
     (take 4 s = ''ami-'' \<and> 8 \<le> length (drop 4 s) \<and> length (drop 4 s) \<le> 17
      \<and> list_all isHexLower (drop 4 s))"

section \<open>The component\<close>

datatype selectionMode = PackageImages | SearchAllImages

text \<open>The props; \<open>valueProp\<close> is \<^verbatim>\<open>props.value\<close>. \<^verbatim>\<open>props.onChange\<close> is the effect \<open>OnChange\<close>.\<close>

record props =
  valueProp :: "image js"
  region :: string
  credentials :: string
  application :: application

record state =
  errorMessage :: "string option"
  selectionMode :: selectionMode
  searchString :: string
  searchResults :: "image list option"
  isSearching :: bool
  packageImages :: "image list option"
  isLoadingPackageImages :: bool

text \<open>The initial state of lines 30-38.\<close>

definition initialState :: state where
  "initialState =
     \<lparr> errorMessage = None, selectionMode = PackageImages, searchString = [],
       searchResults = None, isSearching = False, packageImages = None,
       isLoadingPackageImages = True \<rparr>"

text \<open>What the component does to the outside: it reports a selection, calls the reader, logs.\<close>

datatype effect = OnChange "image js" | Call call | ConsoleError failure

text \<open>
  \<^verbatim>\<open>a === b\<close> on two references to images: \<^verbatim>\<open>null\<close> and \<^verbatim>\<open>undefined\<close> are equal
  to themselves only, two objects when they are the same object.
\<close>

fun strictEq :: "env \<Rightarrow> image js \<Rightarrow> image js \<Rightarrow> bool" where
  "strictEq e Null Null = True"
| "strictEq e Undefined Undefined = True"
| "strictEq e (Obj a) (Obj b) = sameObject e a b"
| "strictEq e _ _ = False"

text \<open>\<^verbatim>\<open>selectImage\<close> (lines 121-125).\<close>

definition selectImage :: "env \<Rightarrow> props \<Rightarrow> image js \<Rightarrow> effect list" where
  "selectImage e p selectedImage =
     (if \<not> strictEq e (valueProp p) selectedImage then [OnChange selectedImage] else [])"

text \<open>\<^verbatim>\<open>findMatchingImage\<close> (lines 127-129); \<^verbatim>\<open>Array.prototype.find\<close> gives \<^verbatim>\<open>undefined\<close> when nothing matches.\<close>

definition findMatchingImage :: "image list \<Rightarrow> image js \<Rightarrow> image js" where
  "findMatchingImage images selectedImage =
     (case find (\<lambda>img. case selectedImage of
                          Obj s \<Rightarrow> imageName s = imageName img
                        | _ \<Rightarrow> False) images of
        None \<Rightarrow> Undefined
      | Some img \<Rightarrow> Obj img)"

text \<open>
  The test \<^verbatim>\<open>!!img.amis[region]\<close> of lines 146, 172 and 190. \<^verbatim>\<open>amis\<close> is a plain
  object, so the property read finds the image's own entry for the region (an array,
  which is truthy even when empty) or, when the region is the name of a member of
  \<^verbatim>\<open>Object.prototype\<close>, the inherited member (a function, or the prototype itself for
  \<^verbatim>\<open>__proto__\<close>: truthy as well). Any other read gives \<^verbatim>\<open>undefined\<close>. On line 114 an
  inherited member has no element \<^verbatim>\<open>0\<close>, so \<open>firstImageId\<close> looks at own entries only.
\<close>

definition objectPrototypeMembers :: "string list" where
  "objectPrototypeMembers =
     [''constructor'', ''__proto__'', ''hasOwnProperty'', ''isPrototypeOf'',
      ''propertyIsEnumerable'', ''toLocaleString'', ''toString'', ''valueOf'',
      ''__defineGetter__'', ''__defineSetter__'', ''__lookupGetter__'', ''__lookupSetter__'']"

definition truthyAmis :: "image \<Rightarrow> string \<Rightarrow> bool" where
  "truthyAmis img r = (amis img r \<noteq> None \<or> r \<in> set objectPrototypeMembers)"

text \<open>The filter of lines 146 and 172.\<close>

definition inRegion :: "string \<Rightarrow> image list \<Rightarrow> image list" where
  "inRegion latestRegion images = filter (\<lambda>img. truthyAmis img latestRegion) images"

text \<open>The function mapped over \<^verbatim>\<open>searchImages$.combineLatest(region$)\<close> (lines 163-173).\<close>

definition searchImagesInRegion :: "state \<Rightarrow> image list \<Rightarrow> string \<Rightarrow> image list" where
  "searchImagesInRegion st results latestRegion =
     (if results = [] \<and> amiRegexExec (searchString st)
      then (case makeFakeImage (searchString st) (searchString st) latestRegion of
              Obj fakeImage \<Rightarrow> [fakeImage]
            | _ \<Rightarrow> [])
      else inRegion latestRegion results)"

subsection \<open>The subscriptions of componentDidMount\<close>

text \<open>
  The reactive streams of lines 131-196 are modelled by what their subscriptions
  remember between events:
  \<^item> \<open>packagePromise\<close>: the promise of line 136, created once when the component mounts;
  \<^item> \<open>pkgImages\<close>, \<open>pkgRegion\<close>: the latest values of the two sources of
    \<^verbatim>\<open>packageImages$.combineLatest(region$)\<close> for the subscription of line 176
    (\<open>None\<close>: that source has not emitted);
  \<^item> \<open>searchOpen\<close>: the \<^verbatim>\<open>catch\<close> of line 156 has not yet replaced the search stream;
    \<open>lastInput\<close> is the memory of \<^verbatim>\<open>distinctUntilChanged\<close> (line 150), \<open>debounced\<close> the
    value waiting in \<^verbatim>\<open>debounceTime\<close>, \<open>searchPromise\<close> the promise the
    \<^verbatim>\<open>switchMap\<close> of line 155 currently listens to;
  \<^item> \<open>srchImages\<close>, \<open>srchRegion\<close>: the latest values of the two sources of
    \<^verbatim>\<open>searchImages$.combineLatest(region$)\<close> (line 163);
  \<^item> \<open>changedRegion\<close>: the memory of \<^verbatim>\<open>distinctUntilChanged\<close> for the subscription of
    line 182; \<open>inner\<close>: the stream its \<^verbatim>\<open>switchMap\<close> currently listens to, a fresh
    subscription to \<^verbatim>\<open>packageImagesInRegion$\<close> with the image captured at line 184.
\<close>

record switchInner =
  capturedImage :: "image js"
  innerImages :: "image list option"
  innerRegion :: "string option"

record component =
  props :: props
  state :: state
  destroyed :: bool
  packagePromise :: "image list promise"
  pkgImages :: "image list option"
  pkgRegion :: "string option"
  searchOpen :: bool
  lastInput :: "string option"
  debounced :: "string option"
  searchPromise :: "image list promise option"
  srchImages :: "image list option"
  srchRegion :: "string option"
  changedRegion :: "string option"
  inner :: "switchInner option"

type_synonym reaction = "component \<times> effect list"

definition andThen :: "reaction \<Rightarrow> (component \<Rightarrow> reaction) \<Rightarrow> reaction" where
  "andThen r f = (case r of (c, es) \<Rightarrow> (case f c of (c', es') \<Rightarrow> (c', es @ es')))"

definition setState :: "(state \<Rightarrow> state) \<Rightarrow> component \<Rightarrow> component" where
  "setState f c = c\<lparr>state := f (state c)\<rparr>"

text \<open>
  \<^verbatim>\<open>componentDidMount\<close> (lines 131-196): the package images are fetched here, once, and
  the subscriptions start with nothing emitted. \<^verbatim>\<open>props$\<close> is a plain subject, so the
  region reaches them with the first \<^verbatim>\<open>componentDidUpdate\<close>.
\<close>

definition componentDidMount :: "env \<Rightarrow> props \<Rightarrow> reaction" where
  "componentDidMount e p =
     (case fetchPackageImages e (valueProp p) (region p) (credentials p) (application p) of
        (calls, promise) \<Rightarrow>
          (\<lparr> props = p, state = initialState\<lparr>isLoadingPackageImages := True\<rparr>,
             destroyed = False, packagePromise = promise,
             pkgImages = None, pkgRegion = None,
             searchOpen = True, lastInput = None, debounced = None, searchPromise = None,
             srchImages = None, srchRegion = None,
             changedRegion = None, inner = None \<rparr>,
           map Call calls))"

text \<open>
  One subscription to \<^verbatim>\<open>packageImages$\<close> receiving the settled promise (lines 136-142):
  the new state, the log, and the list it emits.
\<close>

definition packageImagesEmit :: "state \<Rightarrow> image list promise \<Rightarrow> state \<times> effect list \<times> image list" where
  "packageImagesEmit st promise =
     (case promise of
        Inl err \<Rightarrow>
          (st\<lparr>errorMessage := Some ''Unable to load package images'',
              isLoadingPackageImages := False\<rparr>, [ConsoleError err], [])
      | Inr images \<Rightarrow> (st\<lparr>isLoadingPackageImages := False\<rparr>, [], images))"

text \<open>The subscriber of lines 176-179, given the region-filtered package images.\<close>

definition packageImagesSubscriber :: "env \<Rightarrow> image list \<Rightarrow> component \<Rightarrow> reaction" where
  "packageImagesSubscriber e images c =
     (setState (\<lambda>st. st\<lparr>packageImages := Some images\<rparr>) c,
      selectImage e (props c) (findMatchingImage images (valueProp (props c))))"

text \<open>The subscriber of line 175, given the latest search result and region.\<close>

definition searchImagesSubscriber :: "image list \<Rightarrow> string \<Rightarrow> component \<Rightarrow> component" where
  "searchImagesSubscriber results latestRegion c =
     setState (\<lambda>st. st\<lparr>searchResults := Some (searchImagesInRegion (state c) results latestRegion)\<rparr>) c"

text \<open>
  \<^verbatim>\<open>props$.next(this.props)\<close> reaches the observers of \<^verbatim>\<open>props$\<close> in the order they
  subscribed: the search results (line 175), the package images (line 176), the
  \<^verbatim>\<open>switchMap\<close> of line 183, and last an inner stream that subscribed at an earlier
  region change. Each has its own \<^verbatim>\<open>distinctUntilChanged\<close>.
\<close>

definition regionToSearchImages :: "string \<Rightarrow> component \<Rightarrow> reaction" where
  "regionToSearchImages r c =
     (if srchRegion c = Some r then (c, [])
      else (let c1 = c\<lparr>srchRegion := Some r\<rparr>
            in case srchImages c1 of
                 None \<Rightarrow> (c1, [])
               | Some results \<Rightarrow> (searchImagesSubscriber results r c1, [])))"

definition regionToPackageImages :: "env \<Rightarrow> string \<Rightarrow> component \<Rightarrow> reaction" where
  "regionToPackageImages e r c =
     (if pkgRegion c = Some r then (c, [])
      else (let c1 = c\<lparr>pkgRegion := Some r\<rparr>
            in case pkgImages c1 of
                 None \<Rightarrow> (c1, [])
               | Some images \<Rightarrow> packageImagesSubscriber e (inRegion r images) c1))"

text \<open>\<^verbatim>\<open>hasAmiInRegion\<close> of line 190.\<close>

definition hasAmiInRegion :: "image js \<Rightarrow> string \<Rightarrow> bool" where
  "hasAmiInRegion v selectedRegion =
     (case v of Obj img \<Rightarrow> truthyAmis img selectedRegion | _ \<Rightarrow> False)"

text \<open>
  Lines 182-195. In packageImages mode the new inner stream is subscribed while
  \<^verbatim>\<open>props$\<close> is emitting, so it has seen neither the region nor the package images yet;
  in search mode the inner stream emits at once and completes.
\<close>

definition regionToSwitchMap :: "env \<Rightarrow> string \<Rightarrow> component \<Rightarrow> reaction" where
  "regionToSwitchMap e selectedRegion c =
     (if changedRegion c = Some selectedRegion then (c, [])
      else (let c1 = c\<lparr>changedRegion := Some selectedRegion\<rparr>;
                img = valueProp (props c1)
            in if selectionMode (state c1) = PackageImages
               then (c1\<lparr>inner := Some \<lparr> capturedImage = img, innerImages = None,
                                        innerRegion = None \<rparr>\<rparr>, [])
               else (c1\<lparr>inner := None\<rparr>,
                     selectImage e (props c1)
                       (if hasAmiInRegion img selectedRegion then img else Undefined))))"

text \<open>What an inner stream emits once both of its sources have a value (line 187).\<close>

definition innerEmit :: "env \<Rightarrow> switchInner \<Rightarrow> component \<Rightarrow> effect list" where
  "innerEmit e i c =
     (case (innerImages i, innerRegion i) of
        (Some images, Some r) \<Rightarrow>
          selectImage e (props c) (findMatchingImage (inRegion r images) (capturedImage i))
      | _ \<Rightarrow> [])"

definition regionToInner :: "env \<Rightarrow> string \<Rightarrow> component \<Rightarrow> reaction" where
  "regionToInner e r c =
     (case inner c of
        None \<Rightarrow> (c, [])
      | Some i \<Rightarrow>
          (if innerRegion i = Some r then (c, [])
           else (let i1 = i\<lparr>innerRegion := Some r\<rparr>
                 in (c\<lparr>inner := Some i1\<rparr>, innerEmit e i1 c))))"

text \<open>
  \<^verbatim>\<open>componentDidUpdate\<close> (lines 198-200) after React has rendered with props \<open>p\<close>. An
  inner stream that the \<^verbatim>\<open>switchMap\<close> replaces during this emission is unsubscribed
  before its turn, and the one that replaces it is not among the observers yet.
\<close>

definition componentDidUpdate :: "env \<Rightarrow> props \<Rightarrow> component \<Rightarrow> reaction" where
  "componentDidUpdate e p c =
     (if destroyed c then (c, [])
      else (let r = region p;
                switched = (changedRegion c \<noteq> Some r)
            in andThen (andThen (andThen (regionToSearchImages r (c\<lparr>props := p\<rparr>))
                          (regionToPackageImages e r))
                          (regionToSwitchMap e r))
                 (if switched then (\<lambda>c'. (c', [])) else regionToInner e r)))"

text \<open>
  The promise of the package images has settled and its pending callbacks run, in the
  order of subscription: the subscription of line 176, then the inner stream.
\<close>

definition settlePackageImages :: "env \<Rightarrow> component \<Rightarrow> reaction" where
  "settlePackageImages e c =
     (case pkgImages c of
        Some _ \<Rightarrow> (c, [])
      | None \<Rightarrow>
          (case packageImagesEmit (state c) (packagePromise c) of
             (st, logged, images) \<Rightarrow>
               (let c1 = c\<lparr>state := st, pkgImages := Some images\<rparr>
                in case pkgRegion c1 of
                     None \<Rightarrow> (c1, logged)
                   | Some r \<Rightarrow> andThen (c1, logged) (packageImagesSubscriber e (inRegion r images)))))"

definition settleInner :: "env \<Rightarrow> component \<Rightarrow> reaction" where
  "settleInner e c =
     (case inner c of
        None \<Rightarrow> (c, [])
      | Some i \<Rightarrow>
          (case innerImages i of
             Some _ \<Rightarrow> (c, [])
           | None \<Rightarrow>
               (case packageImagesEmit (state c) (packagePromise c) of
                  (st, logged, images) \<Rightarrow>
                    (let i1 = i\<lparr>innerImages := Some images\<rparr>;
                         c1 = c\<lparr>state := st, inner := Some i1\<rparr>
                     in (c1, logged @ innerEmit e i1 c1)))))"

definition packageImagesSettled :: "env \<Rightarrow> component \<Rightarrow> reaction" where
  "packageImagesSettled e c =
     (if destroyed c then (c, []) else andThen (settlePackageImages e c) (settleInner e))"

text \<open>\<^verbatim>\<open>searchInput$.next(searchInput)\<close> (line 268) through lines 148-151.\<close>

definition searchInput :: "string \<Rightarrow> component \<Rightarrow> reaction" where
  "searchInput s c =
     (if destroyed c \<or> \<not> searchOpen c then (c, [])
      else (let c1 = setState (\<lambda>st. st\<lparr>searchString := s\<rparr>) c
            in if lastInput c1 = Some s then (c1, [])
               else (c1\<lparr>lastInput := Some s, debounced := Some s\<rparr>, [])))"

text \<open>The 250 ms of \<^verbatim>\<open>debounceTime\<close> have passed: lines 154-155.\<close>

definition debounceElapsed :: "env \<Rightarrow> component \<Rightarrow> reaction" where
  "debounceElapsed e c =
     (if destroyed c \<or> \<not> searchOpen c then (c, [])
      else (case debounced c of
              None \<Rightarrow> (c, [])
            | Some s \<Rightarrow>
                (case searchForImages e s of
                   (calls, promise) \<Rightarrow>
                     ((setState (\<lambda>st. st\<lparr>isSearching := True\<rparr>) c)
                        \<lparr>debounced := None, searchPromise := Some promise\<rparr>,
                      map Call calls))))"

text \<open>\<^verbatim>\<open>searchImages$\<close> emits (line 161) and the combination of line 163 follows.\<close>

definition searchImagesEmit :: "image list \<Rightarrow> component \<Rightarrow> component" where
  "searchImagesEmit results c =
     (let c1 = (setState (\<lambda>st. st\<lparr>isSearching := False\<rparr>) c)\<lparr>srchImages := Some results\<rparr>
      in case srchRegion c1 of
           None \<Rightarrow> c1
         | Some r \<Rightarrow> searchImagesSubscriber results r c1)"

text \<open>
  The promise of the current search has settled (lines 155-161). A rejection ends the
  search stream: \<^verbatim>\<open>catch\<close> unsubscribes from the search input and emits \<^verbatim>\<open>[]\<close>, once.
\<close>

definition searchSettled :: "component \<Rightarrow> reaction" where
  "searchSettled c =
     (if destroyed c \<or> \<not> searchOpen c then (c, [])
      else (case searchPromise c of
              None \<Rightarrow> (c, [])
            | Some promise \<Rightarrow>
                (let c1 = c\<lparr>searchPromise := None\<rparr>
                 in case promise of
                      Inr results \<Rightarrow> (searchImagesEmit results c1, [])
                    | Inl err \<Rightarrow>
                        (searchImagesEmit []
                           ((setState (\<lambda>st. st\<lparr>errorMessage := Some ''Unable to search for images''\<rparr>) c1)
                              \<lparr>searchOpen := False, debounced := None\<rparr>),
                         [ConsoleError err]))))"

text \<open>The button of lines 287 and 304, and \<^verbatim>\<open>componentWillUnmount\<close> (lines 202-204).\<close>

definition searchAllImagesClicked :: "component \<Rightarrow> reaction" where
  "searchAllImagesClicked c =
     (if destroyed c then (c, [])
      else (setState (\<lambda>st. st\<lparr>selectionMode := SearchAllImages\<rparr>) c, []))"

definition componentWillUnmount :: "component \<Rightarrow> reaction" where
  "componentWillUnmount c = (c\<lparr>destroyed := True\<rparr>, [])"

subsection \<open>Events and runs\<close>

text \<open>
  What can happen to the mounted component, in any order:
  \<^item> \<open>DidUpdate p\<close>: React has rendered with the props \<open>p\<close> and calls
    \<^verbatim>\<open>componentDidUpdate\<close> (after a render caused by the component's own \<^verbatim>\<open>setState\<close>
    the props are the ones it had);
  \<^item> \<open>PackageImagesSettled\<close>: the promise of the package images is settled and the
    callbacks waiting for it run;
  \<^item> \<open>SearchInput s\<close>: the user has typed \<open>s\<close> into the select;
  \<^item> \<open>DebounceElapsed\<close>: 250 ms have passed since the last distinct input;
  \<^item> \<open>SearchSettled\<close>: the promise of the current search is settled;
  \<^item> \<open>SearchAllImagesClicked\<close> and \<open>WillUnmount\<close>.

  \<^verbatim>\<open>setState\<close> is applied at once. The streams read \<^verbatim>\<open>state.searchString\<close> and
  \<^verbatim>\<open>state.selectionMode\<close> only, and no reaction that reads one of them sets it, so the
  moment at which React applies a batched update makes no difference to them.
\<close>

datatype event =
    DidUpdate props
  | PackageImagesSettled
  | SearchInput string
  | DebounceElapsed
  | SearchSettled
  | SearchAllImagesClicked
  | WillUnmount

definition step :: "env \<Rightarrow> component \<Rightarrow> event \<Rightarrow> reaction" where
  "step e c ev =
     (case ev of
        DidUpdate p \<Rightarrow> componentDidUpdate e p c
      | PackageImagesSettled \<Rightarrow> packageImagesSettled e c
      | SearchInput s \<Rightarrow> searchInput s c
      | DebounceElapsed \<Rightarrow> debounceElapsed e c
      | SearchSettled \<Rightarrow> searchSettled c
      | SearchAllImagesClicked \<Rightarrow> searchAllImagesClicked c
      | WillUnmount \<Rightarrow> componentWillUnmount c)"

text \<open>
  The component after a sequence of events, from the state \<open>c\<close>. Each event comes with
  the environment of its moment: what the reader would answer to a call issued then.
  \<open>runWith\<close> is a run in one environment.
\<close>

fun run :: "component \<Rightarrow> (env \<times> event) list \<Rightarrow> component" where
  "run c [] = c"
| "run c ((e, ev) # evs) = run (fst (step e c ev)) evs"

abbreviation runWith :: "env \<Rightarrow> component \<Rightarrow> event list \<Rightarrow> component" where
  "runWith e c evs \<equiv> run c (map (Pair e) evs)"

text \<open>
  The owner of the props adopts every value reported through \<^verbatim>\<open>onChange\<close>: the selection
  after a reaction is the last value reported, or the value before it.
\<close>

fun selectionAfter :: "image js \<Rightarrow> effect list \<Rightarrow> image js" where
  "selectionAfter v [] = v"
| "selectionAfter v (OnChange w # es) = selectionAfter w es"
| "selectionAfter v (_ # es) = selectionAfter v es"

text \<open>The reader calls among the effects of a reaction.\<close>

definition readerCalls :: "effect list \<Rightarrow> call list" where
  "readerCalls es = concat (map (\<lambda>x. case x of Call k \<Rightarrow> [k] | _ \<Rightarrow> []) es)"

text \<open>
  The prefix the derivation of \<open>buildQueryForSimilarImages\<close> ends with, for stating its
  properties: the part before the first underscore, without its last three
  hyphen-delimited segments when it has more than three.
\<close>

definition hyphenSegments :: "string \<Rightarrow> string list" where
  "hyphenSegments imgName = split CHR ''-'' (beforeUnderscore imgName)"

definition similarImagesPrefix :: "string \<Rightarrow> string" where
  "similarImagesPrefix imgName =
     (if length (hyphenSegments imgName) > 3
      then join ''-'' (take (length (hyphenSegments imgName) - 3) (hyphenSegments imgName))
      else beforeUnderscore imgName)"

text \<open>
  The regions the subscriptions remember agree with the props: each
  \<^verbatim>\<open>distinctUntilChanged\<close> has either seen nothing or seen the region of the current
  props.
\<close>

definition seenRegion :: "component \<Rightarrow> string option \<Rightarrow> bool" where
  "seenRegion c x = (x = None \<or> x = Some (region (props c)))"

definition regionsSynced :: "component \<Rightarrow> bool" where
  "regionsSynced c =
     (seenRegion c (pkgRegion c) \<and> seenRegion c (srchRegion c) \<and> seenRegion c (changedRegion c)
      \<and> (case inner c of None \<Rightarrow> True | Some i \<Rightarrow> seenRegion c (innerRegion i)))"

text \<open>
  Every value reported through \<^verbatim>\<open>onChange\<close> in a list of effects is \<^verbatim>\<open>null\<close>,
  \<^verbatim>\<open>undefined\<close> or an image that passes the test of line 190 for the region \<open>r\<close>.
\<close>

definition okReports :: "string \<Rightarrow> effect list \<Rightarrow> bool" where
  "okReports r es =
     (\<forall>v. OnChange v \<in> set es \<longrightarrow> v = Null \<or> v = Undefined \<or> hasAmiInRegion v r)"

text \<open>
  What the search input remembers agrees with the state: a value waiting in
  \<^verbatim>\<open>debounceTime\<close> is the last distinct input, and the last distinct input is the
  search string of the state.
\<close>

definition inputSynced :: "component \<Rightarrow> bool" where
  "inputSynced c =
     ((case debounced c of None \<Rightarrow> True | Some s \<Rightarrow> lastInput c = Some s)
      \<and> (case lastInput c of None \<Rightarrow> True | Some s \<Rightarrow> searchString (state c) = s))"

text \<open>
  Reconciling a selection with the region-filtered package images by name: \<open>selected\<close>
  is the image whose name is looked for, \<open>v\<close> the selection before the reaction and
  \<open>es\<close> the effects of the reaction. The selection is cleared when no image of the list
  has the name of \<open>selected\<close>, and otherwise it is the first image of the list with that
  name.
\<close>

definition reconciled :: "image list \<Rightarrow> image js \<Rightarrow> image js \<Rightarrow> effect list \<Rightarrow> bool" where
  "reconciled filtered selected v es =
     (let sameName = (\<lambda>img. case selected of Obj s \<Rightarrow> imageName s = imageName img | _ \<Rightarrow> False)
      in (\<not> (\<exists>img \<in> set filtered. sameName img) \<longrightarrow> selectionAfter v es = Undefined)
         \<and> ((\<exists>img \<in> set filtered. sameName img) \<longrightarrow>
              (\<exists>m \<in> set filtered. sameName m \<and> find sameName filtered = Some m
                 \<and> selectionAfter v es = Obj m)))"

text \<open>
  The three subscriptions of \<^verbatim>\<open>componentDidMount\<close> to \<^verbatim>\<open>region$\<close> have seen the same
  regions, and an inner stream exists only once a region has been seen.
\<close>

definition regionsTogether :: "component \<Rightarrow> bool" where
  "regionsTogether c =
     (pkgRegion c = changedRegion c \<and> srchRegion c = changedRegion c
      \<and> (inner c \<noteq> None \<longrightarrow> changedRegion c \<noteq> None))"

subsection \<open>Concrete inputs\<close>

text \<open>
  An image that exists in \<^verbatim>\<open>us-east-1\<close> only, one that exists in two regions, props that
  select them in either region, a reader whose searches find nothing and a reader whose
  every call fails. In both environments two images are the same object exactly when
  their contents are equal.
\<close>

definition eastImage :: image where
  "eastImage =
     \<lparr> imageName = ''myapp-1.0-1234-x86_64'', amis = [''us-east-1'' \<mapsto> [''ami-11111111'']],
       attributes = Map.empty \<rparr>"

definition bothImage :: image where
  "bothImage =
     \<lparr> imageName = ''tools-2.1-77-x86_64'',
       amis = [''us-east-1'' \<mapsto> [''ami-22222222''], ''us-west-2'' \<mapsto> [''ami-33333333'']],
       attributes = Map.empty \<rparr>"

definition propsFor :: "image \<Rightarrow> string \<Rightarrow> props" where
  "propsFor img r =
     \<lparr> valueProp = Obj img, region = r, credentials = ''test'',
       application = \<lparr> name = ''my_app'' \<rparr> \<rparr>"

definition quietReader :: env where
  "quietReader =
     \<lparr> findImages = (\<lambda>q. Inr []),
       getImage = (\<lambda>i r c. Inr (Obj (if i = ''ami-11111111'' then eastImage else bothImage))),
       localeCompare = (\<lambda>a b. 0), sameObject = (=) \<rparr>"

definition failingReader :: env where
  "failingReader =
     \<lparr> findImages = (\<lambda>q. Inl (Rejected ''503'')),
       getImage = (\<lambda>i r c. Inl (Rejected ''404'')),
       localeCompare = (\<lambda>a b. 0), sameObject = (=) \<rparr>"

text \<open>
  A second image that exists in both regions, and a reader whose searches find the
  two of them.
\<close>

definition otherImage :: image where
  "otherImage =
     \<lparr> imageName = ''tools-2.2-78-x86_64'',
       amis = [''us-east-1'' \<mapsto> [''ami-44444444''], ''us-west-2'' \<mapsto> [''ami-55555555'']],
       attributes = Map.empty \<rparr>"

definition pairReader :: env where
  "pairReader =
     \<lparr> findImages = (\<lambda>q. Inr [bothImage, otherImage]),
       getImage = (\<lambda>i r c. Inr (Obj bothImage)),
       localeCompare = (\<lambda>a b. 0), sameObject = (=) \<rparr>"

section \<open>Properties of the string primitives\<close>

lemma split_not_Nil: "split sep s \<noteq> []"
  by (induction s) (auto split: list.splits)

lemma join_split: "join [sep] (split sep s) = s"
proof (induction s)
  case Nil
  then show ?case by simp
next
  case (Cons c cs)
  then show ?case
    by (cases "split sep cs"; cases "tl (split sep cs)") (auto simp: split_not_Nil)
qed

lemma join_append: "xs \<noteq> [] \<Longrightarrow> ys \<noteq> [] \<Longrightarrow> join s (xs @ ys) = join s xs @ s @ join s ys"
proof (induction s xs rule: join.induct)
  case (1 s)
  then show ?case by simp
next
  case (2 s w)
  then show ?case by (cases ys) auto
next
  case (3 s w v va)
  then show ?case by auto
qed

lemma hyphenSegments_not_Nil: "hyphenSegments n \<noteq> []"
  by (simp add: hyphenSegments_def split_not_Nil)

lemma join_hyphenSegments: "join ''-'' (hyphenSegments n) = beforeUnderscore n"
  unfolding hyphenSegments_def by (rule join_split)

lemma buildQuery_eq:
  "buildQueryForSimilarImages n =
     (if length (similarImagesPrefix n) < 3 then None
      else Some (similarImagesPrefix n @ (if length (hyphenSegments n) > 3 then ''-*'' else ''*'')))"
  by (auto simp: buildQueryForSimilarImages_def similarImagesPrefix_def hyphenSegments_def Let_def)

lemma isAmiIdentifier_exec:
  assumes "isAmiIdentifier s"
  shows "amiRegexExec s"
proof -
  from assms have t: "take 4 s = ''ami-''" and h: "list_all isHexLower (drop 4 s)"
    and l: "8 \<le> length (drop 4 s)"
    by (auto simp: isAmiIdentifier_def)
  from h have tw: "takeWhile isHexLower (drop 4 s) = drop 4 s"
    by (simp add: list_all_iff)
  have "amiRegexAt s"
    unfolding amiRegexAt_def tw using t l by simp
  moreover from t have "s \<noteq> []" by auto
  ultimately show ?thesis by (cases s) auto
qed

section \<open>The pure functions\<close>

text \<open>
  C10. \<open>makeFakeImage\<close> returns \<^verbatim>\<open>null\<close> exactly when the image name and the image
  identifier are both empty. Otherwise it returns an image with the given name whose
  \<^verbatim>\<open>amis\<close> has the single key \<open>r\<close>, mapped to the one-element list of the identifier,
  and whose \<^verbatim>\<open>virtualizationType\<close> attribute is \<^verbatim>\<open>*\<close>.
\<close>

theorem makeFakeImage_result:
  "(makeFakeImage n i r = Null \<longleftrightarrow> n = [] \<and> i = []) \<and>
   (\<not> (n = [] \<and> i = []) \<longrightarrow>
      (\<exists>f. makeFakeImage n i r = Obj f \<and> imageName f = n \<and> dom (amis f) = {r}
           \<and> amis f r = Some [i] \<and> attributes f ''virtualizationType'' = Some ''*''))"
  by (simp add: makeFakeImage_def)

theorem makeFakeImage_result_witness:
  "makeFakeImage ''img'' ''ami-12345678'' ''us-east-1'' \<noteq> Null \<and>
   (\<exists>f. makeFakeImage ''img'' ''ami-12345678'' ''us-east-1'' = Obj f \<and> imageName f = ''img''
        \<and> dom (amis f) = {''us-east-1''} \<and> amis f ''us-east-1'' = Some [''ami-12345678'']
        \<and> attributes f ''virtualizationType'' = Some ''*'')"
  using makeFakeImage_result [of "''img''" "''ami-12345678''" "''us-east-1''"] by simp

text \<open>
  C9. A search string of fewer than three characters, the empty string included,
  resolves to the empty list, and no call to the image reader is issued.
\<close>

theorem searchForImages_short:
  "length query < 3 \<Longrightarrow> searchForImages e query = ([], Inr [])"
  by (simp add: searchForImages_def)

theorem searchForImages_short_witness:
  "\<forall>e. length ''am'' < (3::nat) \<and> searchForImages e ''am'' = ([], Inr [])
       \<and> searchForImages e [] = ([], Inr [])"
  using searchForImages_short [of "''am''"] searchForImages_short [of "[]"] by simp

text \<open>
  C3, as stated, at the name \<^verbatim>\<open>a-b-c-d\<close>: four segments, the last three are dropped,
  and the remaining prefix \<^verbatim>\<open>a\<close> is too short, so the result is \<^verbatim>\<open>null\<close> and not
  \<^verbatim>\<open>a-*\<close>.
\<close>

theorem buildQuery_drops_three_counterexample:
  "length (hyphenSegments ''a-b-c-d'') > 3 \<and>
   join ''-'' (take (length (hyphenSegments ''a-b-c-d'') - 3) (hyphenSegments ''a-b-c-d'')) = ''a'' \<and>
   buildQueryForSimilarImages ''a-b-c-d'' = None"
  by (simp add: buildQueryForSimilarImages_def hyphenSegments_def beforeUnderscore_def)

text \<open>
  C3, amended. When the part of the name before the first underscore has more than
  three hyphen-delimited segments, the last three segments (and the hyphen before
  them) are stripped; the query is the kept prefix followed by \<^verbatim>\<open>-*\<close> when that prefix
  has at least three characters, and \<^verbatim>\<open>null\<close> otherwise. The name
  \<^verbatim>\<open>myapp-1.0-1234-x86_64\<close> yields \<^verbatim>\<open>myapp-*\<close>.
\<close>

theorem buildQuery_drops_three:
  assumes "length (hyphenSegments n) > 3"
  shows "(let parts = hyphenSegments n;
              kept = join ''-'' (take (length parts - 3) parts);
              dropped = join ''-'' (drop (length parts - 3) parts)
          in beforeUnderscore n = kept @ ''-'' @ dropped \<and>
             buildQueryForSimilarImages n =
               (if length kept < 3 then None else Some (kept @ ''-*'')))
         \<and> buildQueryForSimilarImages ''myapp-1.0-1234-x86_64'' = Some ''myapp-*''"
proof -
  let ?parts = "hyphenSegments n"
  let ?k = "length ?parts - 3"
  have "take ?k ?parts \<noteq> []" "drop ?k ?parts \<noteq> []"
    using assms by auto
  then have "join ''-'' (take ?k ?parts @ drop ?k ?parts)
      = join ''-'' (take ?k ?parts) @ ''-'' @ join ''-'' (drop ?k ?parts)"
    by (rule join_append)
  then have base: "beforeUnderscore n
      = join ''-'' (take ?k ?parts) @ ''-'' @ join ''-'' (drop ?k ?parts)"
    by (simp add: join_hyphenSegments)
  have query: "buildQueryForSimilarImages n =
      (if length (join ''-'' (take ?k ?parts)) < 3 then None
       else Some (join ''-'' (take ?k ?parts) @ ''-*''))"
    using assms by (auto simp: buildQueryForSimilarImages_def hyphenSegments_def Let_def)
  have example: "buildQueryForSimilarImages ''myapp-1.0-1234-x86_64'' = Some ''myapp-*''"
    by (simp add: buildQueryForSimilarImages_def beforeUnderscore_def)
  show ?thesis
    unfolding Let_def using base query example by blast
qed

theorem buildQuery_drops_three_witness:
  "length (hyphenSegments ''myapp-1.0-1234-x86_64'') > 3 \<and>
   beforeUnderscore ''myapp-1.0-1234-x86_64'' = ''myapp'' @ ''-'' @ ''1.0-1234-x86'' \<and>
   buildQueryForSimilarImages ''myapp-1.0-1234-x86_64'' = Some ''myapp-*''"
proof -
  have n: "length (hyphenSegments ''myapp-1.0-1234-x86_64'') > 3"
    by (simp add: hyphenSegments_def beforeUnderscore_def)
  have "hyphenSegments ''myapp-1.0-1234-x86_64'' = [''myapp'', ''1.0'', ''1234'', ''x86'']"
    by (simp add: hyphenSegments_def beforeUnderscore_def)
  then show ?thesis
    using n buildQuery_drops_three [OF n] by (simp add: Let_def)
qed

text \<open>
  C7. The derivation is a function of the image name. With fewer than four
  hyphen-delimited segments before the first underscore nothing is truncated: the
  prefix is that part of the name and the query is the prefix followed by \<^verbatim>\<open>*\<close>. The
  derivation returns \<^verbatim>\<open>null\<close> exactly when the prefix it ends with has fewer than three
  characters (the empty prefix included), and then \<open>findImagesSimilarTo\<close> resolves to
  the exact image alone, without calling the reader.
\<close>

theorem buildQuery_prefix_rules:
  "(length (hyphenSegments n) < 4 \<longrightarrow>
      similarImagesPrefix n = beforeUnderscore n \<and>
      buildQueryForSimilarImages n =
        (if length (beforeUnderscore n) < 3 then None else Some (beforeUnderscore n @ ''*'')))
   \<and> (buildQueryForSimilarImages n = None \<longleftrightarrow> length (similarImagesPrefix n) < 3)
   \<and> (buildQueryForSimilarImages (imageName img) = None \<longrightarrow>
        findImagesSimilarTo e (Obj img) = ([], Inr [img]))"
  by (auto simp: buildQuery_eq similarImagesPrefix_def findImagesSimilarTo_def)

theorem buildQuery_prefix_rules_witness:
  "\<forall>e. length (hyphenSegments ''ab-1'') < 4 \<and>
        similarImagesPrefix ''ab-1'' = ''ab-1'' \<and>
        buildQueryForSimilarImages ''ab-1'' = Some ''ab-1*'' \<and>
        length (similarImagesPrefix ''ab'') < 3 \<and>
        buildQueryForSimilarImages ''ab'' = None \<and>
        findImagesSimilarTo e (Obj \<lparr>imageName = ''ab'', amis = Map.empty, attributes = Map.empty\<rparr>)
          = ([], Inr [\<lparr>imageName = ''ab'', amis = Map.empty, attributes = Map.empty\<rparr>])"
proof -
  have a: "length (hyphenSegments ''ab-1'') < 4" "beforeUnderscore ''ab-1'' = ''ab-1''"
    by (simp_all add: hyphenSegments_def beforeUnderscore_def)
  have b: "length (similarImagesPrefix ''ab'') < 3"
    by (simp add: similarImagesPrefix_def hyphenSegments_def beforeUnderscore_def)
  show ?thesis
    using a b buildQuery_prefix_rules [of "''ab-1''"]
      buildQuery_prefix_rules [of "''ab''" "\<lparr>imageName = ''ab'', amis = Map.empty, attributes = Map.empty\<rparr>"]
    by simp
qed

text \<open>
  C2. The reader answers the query \<^verbatim>\<open>myapp-*\<close> with one image of another name, so the
  exact image is absent from the answer; \<open>findImagesSimilarTo\<close> returns the answer
  without the exact image. When the answer is the exact image alone, it is appended a
  second time.
\<close>

theorem findImagesSimilarTo_omits_exact_image:
  "(let exact = \<lparr>imageName = ''myapp-1.0-1234-x86_64'', amis = [''us-east-1'' \<mapsto> [''ami-11111111'']],
                 attributes = Map.empty\<rparr>;
        other = \<lparr>imageName = ''myapp-2.0-1-x86_64'', amis = [''us-east-1'' \<mapsto> [''ami-22222222'']],
                 attributes = Map.empty\<rparr>;
        e = \<lparr>findImages = (\<lambda>q. Inr [other]), getImage = (\<lambda>i r c. Inr (Obj exact)),
             localeCompare = (\<lambda>a b. 0), sameObject = (=)\<rparr>
    in exact \<notin> set [other] \<and>
       findImagesSimilarTo e (Obj exact) = ([FindImages ''myapp-*''], Inr [other]) \<and>
       findImagesSimilarTo (e\<lparr>findImages := (\<lambda>q. Inr [exact])\<rparr>) (Obj exact)
         = ([FindImages ''myapp-*''], Inr [exact, exact]))"
  by (simp add: Let_def findImagesSimilarTo_def buildQueryForSimilarImages_def
      beforeUnderscore_def sortBy_def)

section \<open>The reactive pipelines\<close>

subsection \<open>Reports and regions\<close>

lemma find_SomeD: "find P xs = Some x \<Longrightarrow> P x \<and> x \<in> set xs"
  by (induction xs) (auto split: if_splits)

lemma findMatchingImage_cases:
  "findMatchingImage images v = Undefined \<or>
   (\<exists>m s. findMatchingImage images v = Obj m \<and> m \<in> set images \<and> v = Obj s \<and> imageName s = imageName m)"
proof (cases "find (\<lambda>img. case v of Obj s \<Rightarrow> imageName s = imageName img | _ \<Rightarrow> False) images")
  case None
  then show ?thesis by (simp add: findMatchingImage_def)
next
  case (Some m)
  from find_SomeD [OF Some] have "m \<in> set images"
    and "case v of Obj s \<Rightarrow> imageName s = imageName m | _ \<Rightarrow> False"
    by simp_all
  with Some show ?thesis
    by (cases v) (simp_all add: findMatchingImage_def)
qed

lemma findMatchingImage_inRegion:
  "findMatchingImage (inRegion r images) v = Undefined \<or> hasAmiInRegion (findMatchingImage (inRegion r images) v) r"
  using findMatchingImage_cases [of "inRegion r images" v]
  by (auto simp: inRegion_def hasAmiInRegion_def)

lemma selectImage_report:
  "OnChange v \<in> set (selectImage e p x) \<Longrightarrow> v = x"
  by (auto simp: selectImage_def split: if_splits)

lemma okReports_simps:
  "okReports r []"
  "okReports r (es @ es') \<longleftrightarrow> okReports r es \<and> okReports r es'"
  "okReports r (ConsoleError x # es) \<longleftrightarrow> okReports r es"
  "okReports r (Call k # es) \<longleftrightarrow> okReports r es"
  "okReports r (map Call ks)"
  by (auto simp: okReports_def)

lemma okReports_match:
  "okReports r (selectImage e p (findMatchingImage (inRegion r images) v))"
  using findMatchingImage_inRegion [of r images v]
  by (auto simp: okReports_def dest!: selectImage_report)

lemma okReports_kept:
  "okReports r (selectImage e p Undefined)"
  "hasAmiInRegion v r \<Longrightarrow> okReports r (selectImage e p v)"
  by (auto simp: okReports_def dest!: selectImage_report)

lemma andThen_fst: "fst (andThen x f) = fst (f (fst x))"
  by (simp add: andThen_def split: prod.splits)

lemma andThen_snd: "snd (andThen x f) = snd x @ snd (f (fst x))"
  by (simp add: andThen_def split: prod.splits)

lemma regionToSearchImages_frame:
  "snd (regionToSearchImages r c) = []"
  "props (fst (regionToSearchImages r c)) = props c"
  "destroyed (fst (regionToSearchImages r c)) = destroyed c"
  "pkgRegion (fst (regionToSearchImages r c)) = pkgRegion c"
  "srchRegion (fst (regionToSearchImages r c)) = Some r"
  "changedRegion (fst (regionToSearchImages r c)) = changedRegion c"
  "inner (fst (regionToSearchImages r c)) = inner c"
  "pkgImages (fst (regionToSearchImages r c)) = pkgImages c"
  "srchImages (fst (regionToSearchImages r c)) = srchImages c"
  "packagePromise (fst (regionToSearchImages r c)) = packagePromise c"
  "searchPromise (fst (regionToSearchImages r c)) = searchPromise c"
  "selectionMode (state (fst (regionToSearchImages r c))) = selectionMode (state c)"
  "searchString (state (fst (regionToSearchImages r c))) = searchString (state c)"
  "packageImages (state (fst (regionToSearchImages r c))) = packageImages (state c)"
  "debounced (fst (regionToSearchImages r c)) = debounced c"
  "lastInput (fst (regionToSearchImages r c)) = lastInput c"
  by (auto simp: regionToSearchImages_def searchImagesSubscriber_def setState_def Let_def
      split: option.splits)

lemma regionToPackageImages_frame:
  "okReports r (snd (regionToPackageImages e r c))"
  "props (fst (regionToPackageImages e r c)) = props c"
  "destroyed (fst (regionToPackageImages e r c)) = destroyed c"
  "pkgRegion (fst (regionToPackageImages e r c)) = Some r"
  "srchRegion (fst (regionToPackageImages e r c)) = srchRegion c"
  "changedRegion (fst (regionToPackageImages e r c)) = changedRegion c"
  "inner (fst (regionToPackageImages e r c)) = inner c"
  "pkgImages (fst (regionToPackageImages e r c)) = pkgImages c"
  "srchImages (fst (regionToPackageImages e r c)) = srchImages c"
  "packagePromise (fst (regionToPackageImages e r c)) = packagePromise c"
  "searchPromise (fst (regionToPackageImages e r c)) = searchPromise c"
  "selectionMode (state (fst (regionToPackageImages e r c))) = selectionMode (state c)"
  "searchString (state (fst (regionToPackageImages e r c))) = searchString (state c)"
  "searchResults (state (fst (regionToPackageImages e r c))) = searchResults (state c)"
  "debounced (fst (regionToPackageImages e r c)) = debounced c"
  "lastInput (fst (regionToPackageImages e r c)) = lastInput c"
  by (auto simp: regionToPackageImages_def packageImagesSubscriber_def setState_def Let_def
      okReports_simps okReports_match split: option.splits)

lemma regionToSwitchMap_frame:
  "okReports r (snd (regionToSwitchMap e r c))"
  "props (fst (regionToSwitchMap e r c)) = props c"
  "destroyed (fst (regionToSwitchMap e r c)) = destroyed c"
  "pkgRegion (fst (regionToSwitchMap e r c)) = pkgRegion c"
  "srchRegion (fst (regionToSwitchMap e r c)) = srchRegion c"
  "changedRegion (fst (regionToSwitchMap e r c)) = Some r"
  "pkgImages (fst (regionToSwitchMap e r c)) = pkgImages c"
  "srchImages (fst (regionToSwitchMap e r c)) = srchImages c"
  "packagePromise (fst (regionToSwitchMap e r c)) = packagePromise c"
  "searchPromise (fst (regionToSwitchMap e r c)) = searchPromise c"
  "state (fst (regionToSwitchMap e r c)) = state c"
  "debounced (fst (regionToSwitchMap e r c)) = debounced c"
  "lastInput (fst (regionToSwitchMap e r c)) = lastInput c"
  by (auto simp: regionToSwitchMap_def Let_def okReports_simps okReports_kept)

lemma regionToSwitchMap_inner:
  "changedRegion c = Some r \<Longrightarrow> inner (fst (regionToSwitchMap e r c)) = inner c"
  "changedRegion c \<noteq> Some r \<Longrightarrow> inner (fst (regionToSwitchMap e r c)) = Some i
     \<Longrightarrow> innerRegion i = None"
  by (auto simp: regionToSwitchMap_def Let_def split: if_splits)

lemma regionToInner_frame:
  "okReports r (snd (regionToInner e r c))"
  "props (fst (regionToInner e r c)) = props c"
  "destroyed (fst (regionToInner e r c)) = destroyed c"
  "pkgRegion (fst (regionToInner e r c)) = pkgRegion c"
  "srchRegion (fst (regionToInner e r c)) = srchRegion c"
  "changedRegion (fst (regionToInner e r c)) = changedRegion c"
  "pkgImages (fst (regionToInner e r c)) = pkgImages c"
  "srchImages (fst (regionToInner e r c)) = srchImages c"
  "packagePromise (fst (regionToInner e r c)) = packagePromise c"
  "searchPromise (fst (regionToInner e r c)) = searchPromise c"
  "state (fst (regionToInner e r c)) = state c"
  "debounced (fst (regionToInner e r c)) = debounced c"
  "lastInput (fst (regionToInner e r c)) = lastInput c"
  by (auto simp: regionToInner_def innerEmit_def Let_def okReports_simps okReports_match
      split: option.splits)

lemma regionToInner_inner:
  "inner (fst (regionToInner e r c)) = Some i \<Longrightarrow> innerRegion i = Some r"
  by (auto simp: regionToInner_def Let_def split: option.splits if_splits)

lemmas region_frames =
  regionToSearchImages_frame regionToPackageImages_frame regionToSwitchMap_frame
  regionToInner_frame andThen_fst andThen_snd

lemmas reaction_defs =
  andThen_def setState_def regionToSearchImages_def regionToPackageImages_def
  regionToSwitchMap_def regionToInner_def innerEmit_def packageImagesSubscriber_def
  searchImagesSubscriber_def

lemma didUpdate_region_change:
  assumes "\<not> destroyed c" and "pkgRegion c \<noteq> Some (region p)"
    and "srchRegion c \<noteq> Some (region p)" and "changedRegion c \<noteq> Some (region p)"
    and "componentDidUpdate e p c = (c', es)"
  shows "es = (case pkgImages c of
                 None \<Rightarrow> []
               | Some images \<Rightarrow>
                   selectImage e p (findMatchingImage (inRegion (region p) images) (valueProp p)))
              @ (if selectionMode (state c) = PackageImages then []
                 else selectImage e p (if hasAmiInRegion (valueProp p) (region p)
                                     then valueProp p else Undefined))"
    and "packageImages (state c') =
           (case pkgImages c of None \<Rightarrow> packageImages (state c)
            | Some images \<Rightarrow> Some (inRegion (region p) images))"
    and "searchResults (state c') =
           (case srchImages c of None \<Rightarrow> searchResults (state c)
            | Some results \<Rightarrow> Some (searchImagesInRegion (state c) results (region p)))"
    and "pkgImages c' = pkgImages c" and "srchImages c' = srchImages c"
    and "packagePromise c' = packagePromise c" and "searchPromise c' = searchPromise c"
  using assms
  by (auto simp: componentDidUpdate_def reaction_defs Let_def split: option.splits if_splits)

lemma mount_synced: "regionsSynced (fst (componentDidMount e p))"
  by (simp add: componentDidMount_def regionsSynced_def seenRegion_def split: prod.splits)

lemma didUpdate_props:
  "\<not> destroyed c \<Longrightarrow> props (fst (componentDidUpdate e p c)) = p"
  by (simp add: componentDidUpdate_def Let_def region_frames)

lemma didUpdate_destroyed:
  "destroyed (fst (componentDidUpdate e p c)) = destroyed c"
  by (simp add: componentDidUpdate_def Let_def region_frames)

lemma didUpdate_reports:
  "okReports (region p) (snd (componentDidUpdate e p c))"
  by (simp add: componentDidUpdate_def Let_def region_frames okReports_simps)

lemma didUpdate_synced:
  assumes "regionsSynced c"
  shows "regionsSynced (fst (componentDidUpdate e p c))"
proof (cases "destroyed c")
  case True
  with assms show ?thesis by (simp add: componentDidUpdate_def)
next
  case False
  show ?thesis
  proof (cases "changedRegion c = Some (region p)")
    case True
    with False show ?thesis
      by (auto simp: componentDidUpdate_def Let_def region_frames regionsSynced_def seenRegion_def
          split: option.splits dest: regionToInner_inner)
  next
    case neq: False
    have "changedRegion (fst (regionToPackageImages e (region p)
           (fst (regionToSearchImages (region p) (c\<lparr>props := p\<rparr>))))) \<noteq> Some (region p)"
      using neq by (simp add: region_frames)
    from regionToSwitchMap_inner(2) [OF this] False neq
    show ?thesis
      by (auto simp: componentDidUpdate_def Let_def region_frames regionsSynced_def seenRegion_def
          split: option.splits)
  qed
qed

lemma packageImagesEmit_cases:
  "packageImagesEmit st promise =
     (st\<lparr>errorMessage := (case promise of Inl err \<Rightarrow> Some ''Unable to load package images''
                               | Inr images \<Rightarrow> errorMessage st),
         isLoadingPackageImages := False\<rparr>,
      (case promise of Inl err \<Rightarrow> [ConsoleError err] | Inr images \<Rightarrow> []),
      (case promise of Inl err \<Rightarrow> [] | Inr images \<Rightarrow> images))"
  by (simp add: packageImagesEmit_def split: sum.splits)

lemma settlePackageImages_frame:
  "props (fst (settlePackageImages e c)) = props c"
  "destroyed (fst (settlePackageImages e c)) = destroyed c"
  "pkgRegion (fst (settlePackageImages e c)) = pkgRegion c"
  "srchRegion (fst (settlePackageImages e c)) = srchRegion c"
  "changedRegion (fst (settlePackageImages e c)) = changedRegion c"
  "inner (fst (settlePackageImages e c)) = inner c"
  "packagePromise (fst (settlePackageImages e c)) = packagePromise c"
  "debounced (fst (settlePackageImages e c)) = debounced c"
  "lastInput (fst (settlePackageImages e c)) = lastInput c"
  "searchString (state (fst (settlePackageImages e c))) = searchString (state c)"
  by (auto simp: settlePackageImages_def packageImagesEmit_cases packageImagesSubscriber_def
      setState_def andThen_def Let_def split: option.splits)

lemma settlePackageImages_reports:
  "seenRegion c (pkgRegion c) \<Longrightarrow> okReports (region (props c)) (snd (settlePackageImages e c))"
  by (auto simp: settlePackageImages_def packageImagesEmit_cases packageImagesSubscriber_def
      setState_def andThen_def Let_def seenRegion_def okReports_simps okReports_match
      split: option.splits sum.splits)

lemma settleInner_frame:
  "props (fst (settleInner e c)) = props c"
  "destroyed (fst (settleInner e c)) = destroyed c"
  "pkgRegion (fst (settleInner e c)) = pkgRegion c"
  "srchRegion (fst (settleInner e c)) = srchRegion c"
  "changedRegion (fst (settleInner e c)) = changedRegion c"
  "packagePromise (fst (settleInner e c)) = packagePromise c"
  "debounced (fst (settleInner e c)) = debounced c"
  "lastInput (fst (settleInner e c)) = lastInput c"
  "searchString (state (fst (settleInner e c))) = searchString (state c)"
  "map_option innerRegion (inner (fst (settleInner e c))) = map_option innerRegion (inner c)"
  by (auto simp: settleInner_def packageImagesEmit_cases Let_def split: option.splits)

lemma settleInner_reports:
  "(case inner c of None \<Rightarrow> True | Some i \<Rightarrow> seenRegion c (innerRegion i))
     \<Longrightarrow> okReports (region (props c)) (snd (settleInner e c))"
  by (auto simp: settleInner_def packageImagesEmit_cases innerEmit_def Let_def seenRegion_def
      okReports_simps okReports_match split: option.splits sum.splits)

lemma regionsSynced_cong:
  assumes "regionsSynced c" and "props c' = props c" and "pkgRegion c' = pkgRegion c"
    and "srchRegion c' = srchRegion c" and "changedRegion c' = changedRegion c"
    and "map_option innerRegion (inner c') = map_option innerRegion (inner c)"
  shows "regionsSynced c'"
  using assms by (auto simp: regionsSynced_def seenRegion_def split: option.splits)

lemma packageImagesSettled_synced:
  "regionsSynced c \<Longrightarrow> regionsSynced (fst (packageImagesSettled e c))"
  by (erule regionsSynced_cong)
    (simp_all add: packageImagesSettled_def andThen_fst settlePackageImages_frame settleInner_frame)

lemma packageImagesSettled_props:
  "props (fst (packageImagesSettled e c)) = props c"
  "packagePromise (fst (packageImagesSettled e c)) = packagePromise c"
  by (simp_all add: packageImagesSettled_def andThen_fst settlePackageImages_frame settleInner_frame)

lemma packageImagesSettled_reports:
  assumes "regionsSynced c"
  shows "okReports (region (props c)) (snd (packageImagesSettled e c))"
proof -
  from assms have a: "seenRegion c (pkgRegion c)"
    and b: "case inner c of None \<Rightarrow> True | Some i \<Rightarrow> seenRegion c (innerRegion i)"
    by (simp_all add: regionsSynced_def)
  let ?c1 = "fst (settlePackageImages e c)"
  from b have "case inner ?c1 of None \<Rightarrow> True | Some i \<Rightarrow> seenRegion ?c1 (innerRegion i)"
    by (simp add: settlePackageImages_frame seenRegion_def split: option.splits)
  from settleInner_reports [OF this] settlePackageImages_reports [OF a]
  show ?thesis
    by (simp add: packageImagesSettled_def andThen_snd okReports_simps settlePackageImages_frame)
qed

lemma search_frames:
  "props (fst (searchInput s c)) = props c"
  "pkgRegion (fst (searchInput s c)) = pkgRegion c"
  "srchRegion (fst (searchInput s c)) = srchRegion c"
  "changedRegion (fst (searchInput s c)) = changedRegion c"
  "inner (fst (searchInput s c)) = inner c"
  "packagePromise (fst (searchInput s c)) = packagePromise c"
  "snd (searchInput s c) = []"
  "props (fst (debounceElapsed e c)) = props c"
  "pkgRegion (fst (debounceElapsed e c)) = pkgRegion c"
  "srchRegion (fst (debounceElapsed e c)) = srchRegion c"
  "changedRegion (fst (debounceElapsed e c)) = changedRegion c"
  "inner (fst (debounceElapsed e c)) = inner c"
  "packagePromise (fst (debounceElapsed e c)) = packagePromise c"
  "okReports r (snd (debounceElapsed e c))"
  "props (fst (searchSettled c)) = props c"
  "pkgRegion (fst (searchSettled c)) = pkgRegion c"
  "srchRegion (fst (searchSettled c)) = srchRegion c"
  "changedRegion (fst (searchSettled c)) = changedRegion c"
  "inner (fst (searchSettled c)) = inner c"
  "packagePromise (fst (searchSettled c)) = packagePromise c"
  "okReports r (snd (searchSettled c))"
  "props (fst (searchAllImagesClicked c)) = props c"
  "pkgRegion (fst (searchAllImagesClicked c)) = pkgRegion c"
  "srchRegion (fst (searchAllImagesClicked c)) = srchRegion c"
  "changedRegion (fst (searchAllImagesClicked c)) = changedRegion c"
  "inner (fst (searchAllImagesClicked c)) = inner c"
  "packagePromise (fst (searchAllImagesClicked c)) = packagePromise c"
  "snd (searchAllImagesClicked c) = []"
  "props (fst (componentWillUnmount c)) = props c"
  "pkgRegion (fst (componentWillUnmount c)) = pkgRegion c"
  "srchRegion (fst (componentWillUnmount c)) = srchRegion c"
  "changedRegion (fst (componentWillUnmount c)) = changedRegion c"
  "inner (fst (componentWillUnmount c)) = inner c"
  "packagePromise (fst (componentWillUnmount c)) = packagePromise c"
  "snd (componentWillUnmount c) = []"
  by (auto simp: searchInput_def debounceElapsed_def searchSettled_def searchAllImagesClicked_def
      componentWillUnmount_def searchImagesEmit_def searchImagesSubscriber_def setState_def
      Let_def okReports_simps split: option.splits prod.splits sum.splits)

lemma step_synced:
  assumes "regionsSynced c"
  shows "regionsSynced (fst (step e c ev))"
proof (cases ev)
  case (DidUpdate p)
  with assms show ?thesis by (simp add: step_def didUpdate_synced)
next
  case PackageImagesSettled
  with assms show ?thesis by (simp add: step_def packageImagesSettled_synced)
qed (auto simp: step_def search_frames intro: regionsSynced_cong [OF assms])

lemma run_synced:
  "regionsSynced c \<Longrightarrow> regionsSynced (run c evs)"
  by (induction c evs rule: run.induct) (simp_all add: step_synced)

lemma step_props:
  "props (fst (step e c ev)) =
     (case ev of DidUpdate p \<Rightarrow> if destroyed c then props c else p | _ \<Rightarrow> props c)"
proof (cases ev)
  case (DidUpdate p)
  show ?thesis
  proof (cases "destroyed c")
    case True
    with DidUpdate show ?thesis by (simp add: step_def componentDidUpdate_def)
  next
    case False
    with DidUpdate show ?thesis by (simp add: step_def didUpdate_props)
  qed
qed (simp_all add: step_def search_frames packageImagesSettled_props)

lemma step_reports:
  assumes "regionsSynced c"
  shows "okReports (region (props (fst (step e c ev)))) (snd (step e c ev))"
proof (cases ev)
  case (DidUpdate p)
  show ?thesis
  proof (cases "destroyed c")
    case True
    with DidUpdate show ?thesis by (simp add: step_def componentDidUpdate_def okReports_simps)
  next
    case False
    with DidUpdate show ?thesis by (simp add: step_def didUpdate_props didUpdate_reports)
  qed
next
  case PackageImagesSettled
  with assms show ?thesis
    by (simp add: step_def packageImagesSettled_props packageImagesSettled_reports)
qed (simp_all add: step_def search_frames okReports_simps)

lemma step_packagePromise:
  "packagePromise (fst (step e c ev)) = packagePromise c"
  by (cases ev)
    (simp_all add: step_def search_frames packageImagesSettled_props componentDidUpdate_def
      Let_def region_frames)

lemma run_packagePromise:
  "packagePromise (run c evs) = packagePromise c"
  by (induction c evs rule: run.induct) (simp_all add: step_packagePromise)

lemma selectionAfter_append:
  "selectionAfter v (es @ es') = selectionAfter (selectionAfter v es) es'"
  by (induction v es rule: selectionAfter.induct) simp_all

lemma strictEq_Undefined:
  "strictEq e v Undefined \<longleftrightarrow> v = Undefined"
  by (cases v) simp_all

lemma selectionAfter_selectImage:
  "selectionAfter v (selectImage e p x) = (if strictEq e (valueProp p) x then v else x)"
  by (simp add: selectImage_def)

lemma readerCalls_simps:
  "readerCalls [] = []"
  "readerCalls (es @ es') = readerCalls es @ readerCalls es'"
  "readerCalls (selectImage e p x) = []"
  by (simp_all add: readerCalls_def selectImage_def)

lemma findMatchingImage_None:
  "findMatchingImage images Undefined = Undefined"
  "findMatchingImage images Null = Undefined"
  by (induction images) (simp_all add: findMatchingImage_def)

lemma reached_synced:
  "regionsSynced (run (fst (componentDidMount initialEnv initialProps)) evs)"
  by (rule run_synced) (rule mount_synced)

lemma region_changed:
  assumes "regionsSynced c" and "r \<noteq> region (props c)"
  shows "pkgRegion c \<noteq> Some r" and "srchRegion c \<noteq> Some r" and "changedRegion c \<noteq> Some r"
  using assms by (auto simp: regionsSynced_def seenRegion_def)

subsection \<open>The search input\<close>

lemma inputSynced_cong:
  assumes "inputSynced c" and "debounced c' = debounced c" and "lastInput c' = lastInput c"
    and "searchString (state c') = searchString (state c)"
  shows "inputSynced c'"
  using assms by (auto simp: inputSynced_def split: option.splits)

lemma step_inputSynced:
  assumes "inputSynced c"
  shows "inputSynced (fst (step e c ev))"
proof (cases ev)
  case (DidUpdate p)
  show ?thesis
    unfolding DidUpdate step_def event.case
    by (rule inputSynced_cong [OF assms])
      (simp_all add: componentDidUpdate_def Let_def region_frames)
next
  case PackageImagesSettled
  show ?thesis
    unfolding PackageImagesSettled step_def event.case
    by (rule inputSynced_cong [OF assms])
      (simp_all add: packageImagesSettled_def andThen_fst settlePackageImages_frame
        settleInner_frame)
next
  case (SearchInput s)
  with assms show ?thesis
    by (auto simp: step_def searchInput_def setState_def inputSynced_def Let_def
        split: option.splits)
next
  case DebounceElapsed
  with assms show ?thesis
    by (auto simp: step_def debounceElapsed_def setState_def inputSynced_def
        split: option.splits prod.splits)
next
  case SearchSettled
  with assms show ?thesis
    by (auto simp: step_def searchSettled_def searchImagesEmit_def searchImagesSubscriber_def
        setState_def inputSynced_def Let_def split: option.splits sum.splits)
next
  case SearchAllImagesClicked
  with assms show ?thesis
    by (auto simp: step_def searchAllImagesClicked_def setState_def inputSynced_def
        split: option.splits)
next
  case WillUnmount
  with assms show ?thesis
    by (auto simp: step_def componentWillUnmount_def inputSynced_def split: option.splits)
qed

lemma run_inputSynced:
  "inputSynced c \<Longrightarrow> inputSynced (run c evs)"
  by (induction c evs rule: run.induct) (simp_all add: step_inputSynced)

lemma reached_inputSynced:
  "inputSynced (run (fst (componentDidMount initialEnv initialProps)) evs)"
  by (rule run_inputSynced)
    (simp add: componentDidMount_def inputSynced_def split: prod.splits)

lemma amiRegexExec_not_Nil: "amiRegexExec s \<Longrightarrow> s \<noteq> []"
  by (cases s) simp_all

lemma searchImagesInRegion_cases:
  "searchImagesInRegion st results r =
     (if results = [] \<and> amiRegexExec (searchString st)
      then [\<lparr> imageName = searchString st, amis = [r \<mapsto> [searchString st]],
              attributes = [''virtualizationType'' \<mapsto> ''*''] \<rparr>]
      else inRegion r results)"
  by (auto simp: searchImagesInRegion_def makeFakeImage_def dest: amiRegexExec_not_Nil)

subsection \<open>Evaluating the model on concrete inputs\<close>

lemmas model_defs =
  componentDidMount_def fetchPackageImages_def firstImageId_def loadImagesFromImageId_def
  loadImagesFromApplicationName_def findImagesSimilarTo_def buildQueryForSimilarImages_def
  beforeUnderscore_def sortBy_def initialState_def
  step_def componentDidUpdate_def andThen_def setState_def regionToSearchImages_def
  regionToPackageImages_def regionToSwitchMap_def regionToInner_def innerEmit_def
  packageImagesSubscriber_def searchImagesSubscriber_def packageImagesSettled_def
  settlePackageImages_def settleInner_def packageImagesEmit_def searchInput_def
  debounceElapsed_def searchSettled_def searchImagesEmit_def searchAllImagesClicked_def
  componentWillUnmount_def selectImage_def findMatchingImage_def inRegion_def
  searchImagesInRegion_def hasAmiInRegion_def searchForImages_def makeFakeImage_def
  eastImage_def bothImage_def otherImage_def propsFor_def quietReader_def failingReader_def
  pairReader_def replaceAll_def
  amiRegexAt_def isHexLower_def isAmiIdentifier_def readerCalls_def truthyAmis_def
  objectPrototypeMembers_def

subsection \<open>Region changes and the selection\<close>

text \<open>
  What holds for every region. After any sequence of events since the component
  mounted, every value the next event makes the component report through
  \<^verbatim>\<open>onChange\<close> is \<^verbatim>\<open>null\<close>, \<^verbatim>\<open>undefined\<close> or an image that passes the test of line 190
  for the region of the current props. In search mode, when the region changes, a
  selection that fails that test for the new region is cleared.
\<close>

lemma reports_pass_region_test:
  assumes "c = run (fst (componentDidMount initialEnv initialProps)) evs"
    and "step e c ev = (c', es)"
  shows "(\<forall>v. OnChange v \<in> set es \<longrightarrow>
            v = Null \<or> v = Undefined \<or> hasAmiInRegion v (region (props c')))
       \<and> (\<forall>p. ev = DidUpdate p \<and> \<not> destroyed c \<and> selectionMode (state c) = SearchAllImages
              \<and> region p \<noteq> region (props c) \<longrightarrow>
            (\<not> hasAmiInRegion (valueProp p) (region p) \<longrightarrow>
               selectionAfter (valueProp p) es = Undefined)
          \<and> (\<forall>img. valueProp p = Obj img \<and> selectionAfter (valueProp p) es = Obj img \<longrightarrow>
               hasAmiInRegion (valueProp p) (region p)))"
proof -
  have synced: "regionsSynced c"
    unfolding assms(1) by (rule reached_synced)
  from step_reports [OF synced, of e ev] assms(2)
  have reports: "\<forall>v. OnChange v \<in> set es \<longrightarrow>
      v = Null \<or> v = Undefined \<or> hasAmiInRegion v (region (props c'))"
    by (simp add: okReports_def)
  have cleared: "selectionAfter (valueProp p) es = Undefined"
    if ev: "ev = DidUpdate p" and alive: "\<not> destroyed c"
      and mode: "selectionMode (state c) = SearchAllImages"
      and changed: "region p \<noteq> region (props c)"
      and absent: "\<not> hasAmiInRegion (valueProp p) (region p)" for p
  proof -
    from assms(2) ev have upd: "componentDidUpdate e p c = (c', es)"
      by (simp add: step_def)
    note es = didUpdate_region_change(1) [OF alive region_changed [OF synced changed] upd]
    show ?thesis
    proof (cases "valueProp p = Undefined")
      case True
      then show ?thesis
        using es mode absent
        by (simp add: selectionAfter_append selectionAfter_selectImage findMatchingImage_None
            strictEq_Undefined split: option.splits)
    next
      case False
      then show ?thesis
        using es mode absent
        by (simp add: selectionAfter_append selectionAfter_selectImage strictEq_Undefined
            split: option.splits)
    qed
  qed
  from reports cleared show ?thesis by fastforce
qed

text \<open>
  C1, at the region \<^verbatim>\<open>constructor\<close>, the name of a member of \<^verbatim>\<open>Object.prototype\<close>. The
  selected image exists in \<^verbatim>\<open>us-east-1\<close> only and has no \<^verbatim>\<open>amis\<close> entry for the new
  region. In search mode the region change reports nothing: the selection is kept, and
  the package images keep the image too. In packageImages mode, when the selected
  image and the entry of the package list are two objects, the entry is reported
  through \<^verbatim>\<open>onChange\<close>, without an \<^verbatim>\<open>amis\<close> entry for the region of the props.
\<close>

theorem selection_kept_without_amis_entry:
  "(let east = propsFor eastImage ''us-east-1'';
        p = propsFor eastImage ''constructor'';
        searching = runWith quietReader (fst (componentDidMount quietReader east))
                      [DidUpdate east, PackageImagesSettled, SearchAllImagesClicked];
        kept = step quietReader searching (DidUpdate p);
        picking = runWith quietReader (fst (componentDidMount quietReader east))
                    [DidUpdate east, PackageImagesSettled];
        twoObjects = quietReader\<lparr>sameObject := (\<lambda>a b. False)\<rparr>
    in amis eastImage ''constructor'' = None \<and> valueProp p = Obj eastImage
       \<and> selectionMode (state searching) = SearchAllImages
       \<and> region p \<noteq> region (props searching)
       \<and> snd kept = [] \<and> selectionAfter (valueProp p) (snd kept) = Obj eastImage
       \<and> packageImages (state (fst kept)) = Some [eastImage]
       \<and> selectionMode (state picking) = PackageImages
       \<and> region (props (fst (step twoObjects picking (DidUpdate p)))) = ''constructor''
       \<and> snd (step twoObjects picking (DidUpdate p)) = [OnChange (Obj eastImage)])"
  unfolding Let_def by (simp add: model_defs Let_def)

text \<open>
  C5. The search string \<open>s\<close> waits in the debounce and matches the identifier pattern;
  the reader finds nothing for it. Then the search is issued for \<open>s\<close>, and once it has
  settled the search results are exactly one image: the synthesized one, named \<open>s\<close>,
  whose \<^verbatim>\<open>amis\<close> maps the region of the current props, and nothing else, to \<open>[s]\<close>.
\<close>

theorem ami_identifier_search_synthesizes:
  assumes "c = run (fst (componentDidMount initialEnv initialProps)) evs"
    and "\<not> destroyed c" and "searchOpen c" and "srchRegion c \<noteq> None"
    and "debounced c = Some s" and "isAmiIdentifier s" and "findImages e s = Inr []"
  shows "readerCalls (snd (debounceElapsed e c)) = [FindImages s] \<and>
         searchResults (state (runWith e c [DebounceElapsed, SearchSettled])) =
           Some [\<lparr> imageName = s, amis = [region (props c) \<mapsto> [s]],
                   attributes = [''virtualizationType'' \<mapsto> ''*''] \<rparr>]"
proof -
  have "regionsSynced c" "inputSynced c"
    unfolding assms(1) by (rule reached_synced, rule reached_inputSynced)
  with assms(4,5) have r: "srchRegion c = Some (region (props c))"
    and str: "searchString (state c) = s"
    by (auto simp: regionsSynced_def seenRegion_def inputSynced_def)
  from assms(6) have "take 4 s = ''ami-''" by (simp add: isAmiIdentifier_def)
  then have "length (take 4 s) = 4" by simp
  then have len: "3 \<le> length s" by simp
  then have "s \<noteq> []" by auto
  with len assms(7) have search: "searchForImages e s = ([FindImages s], Inr [])"
    by (simp add: searchForImages_def)
  from assms(6) have regex: "amiRegexExec s" by (rule isAmiIdentifier_exec)
  from search assms(2,3,5) have calls: "readerCalls (snd (debounceElapsed e c)) = [FindImages s]"
    by (simp add: debounceElapsed_def readerCalls_def)
  from search assms(2,3,5) r str regex
  have "searchResults (state (runWith e c [DebounceElapsed, SearchSettled])) =
      Some (searchImagesInRegion (state c\<lparr>isSearching := False\<rparr>) [] (region (props c)))"
    by (simp add: step_def debounceElapsed_def searchSettled_def searchImagesEmit_def
        searchImagesSubscriber_def setState_def Let_def)
  with str regex calls show ?thesis
    by (simp add: searchImagesInRegion_cases)
qed

theorem ami_identifier_search_synthesizes_witness:
  "(let c = runWith quietReader (fst (componentDidMount quietReader (propsFor eastImage ''us-east-1'')))
              [DidUpdate (propsFor eastImage ''us-east-1''), SearchInput ''ami-12345678'']
    in \<not> destroyed c \<and> searchOpen c \<and> srchRegion c \<noteq> None
       \<and> debounced c = Some ''ami-12345678'' \<and> isAmiIdentifier ''ami-12345678''
       \<and> findImages quietReader ''ami-12345678'' = Inr []
       \<and> readerCalls (snd (debounceElapsed quietReader c)) = [FindImages ''ami-12345678'']
       \<and> searchResults (state (runWith quietReader c [DebounceElapsed, SearchSettled])) =
           Some [\<lparr> imageName = ''ami-12345678'',
                   amis = [''us-east-1'' \<mapsto> [''ami-12345678'']],
                   attributes = [''virtualizationType'' \<mapsto> ''*''] \<rparr>])"
proof -
  let ?c = "runWith quietReader (fst (componentDidMount quietReader (propsFor eastImage ''us-east-1'')))
              [DidUpdate (propsFor eastImage ''us-east-1''), SearchInput ''ami-12345678'']"
  have h: "\<not> destroyed ?c" "searchOpen ?c" "srchRegion ?c \<noteq> None"
    "debounced ?c = Some ''ami-12345678''" "isAmiIdentifier ''ami-12345678''"
    "findImages quietReader ''ami-12345678'' = Inr []"
    "region (props ?c) = ''us-east-1''"
    by (simp_all add: model_defs Let_def)
  from ami_identifier_search_synthesizes [OF refl h(1-6)] h
  show ?thesis
    unfolding Let_def by simp
qed

lemma strictEq_eq:
  assumes "\<And>a b. sameObject e a b \<Longrightarrow> a = b" and "strictEq e x y"
  shows "x = y"
  using assms by (cases x; cases y) simp_all

lemma selectionAfter_one:
  assumes "\<And>a b. sameObject e a b \<Longrightarrow> a = b"
  shows "selectionAfter (valueProp p) (selectImage e p m) = m"
  using strictEq_eq [OF assms, where x = "valueProp p" and y = m]
  by (auto simp: selectImage_def)

lemma findMatchingImage_idem:
  "findMatchingImage images (findMatchingImage images x) = findMatchingImage images x"
proof (cases "find (\<lambda>img. case x of Obj s \<Rightarrow> imageName s = imageName img | _ \<Rightarrow> False) images")
  case None
  then have "findMatchingImage images x = Undefined"
    by (simp add: findMatchingImage_def)
  then show ?thesis by (simp add: findMatchingImage_None)
next
  case (Some m)
  from find_SomeD [OF Some] obtain s where x: "x = Obj s" and name: "imageName s = imageName m"
    by (cases x) simp_all
  from Some x have first: "find (\<lambda>img. imageName s = imageName img) images = Some m"
    by simp
  from Some have "findMatchingImage images x = Obj m"
    by (simp add: findMatchingImage_def)
  moreover from first name have "findMatchingImage images (Obj m) = Obj m"
    by (simp add: findMatchingImage_def)
  ultimately show ?thesis by simp
qed

lemma selectionAfter_both:
  assumes "\<And>a b. sameObject e a b \<Longrightarrow> a = b"
  shows "selectionAfter (valueProp p)
           (selectImage e p (findMatchingImage images (valueProp p))
            @ selectImage e p (findMatchingImage images x))
         = findMatchingImage images x"
proof (cases "strictEq e (valueProp p) (findMatchingImage images x)")
  case False
  then show ?thesis
    by (simp add: selectionAfter_append selectionAfter_selectImage)
next
  case True
  from strictEq_eq [OF assms True] have v: "valueProp p = findMatchingImage images x" .
  then have "findMatchingImage images (valueProp p) = valueProp p"
    by (simp add: findMatchingImage_idem)
  with True v show ?thesis
    by (simp add: selectionAfter_append selectionAfter_selectImage)
qed

lemma reconciledI:
  assumes "selectionAfter v es = findMatchingImage filtered selected"
  shows "reconciled filtered selected v es"
proof -
  let ?sameName = "\<lambda>img. case selected of Obj s \<Rightarrow> imageName s = imageName img | _ \<Rightarrow> False"
  have none: "selectionAfter v es = Undefined"
    if "\<not> (\<exists>img \<in> set filtered. ?sameName img)"
  proof -
    from that have "find ?sameName filtered = None"
      by (simp add: find_None_iff)
    with assms show ?thesis by (simp add: findMatchingImage_def)
  qed
  have some: "\<exists>m \<in> set filtered. ?sameName m \<and> find ?sameName filtered = Some m
      \<and> selectionAfter v es = Obj m"
    if "\<exists>img \<in> set filtered. ?sameName img"
  proof -
    from that obtain m where m: "find ?sameName filtered = Some m"
      by (cases "find ?sameName filtered") (auto simp: find_None_iff)
    from find_SomeD [OF m] m assms show ?thesis
      by (auto simp: findMatchingImage_def)
  qed
  from none some show ?thesis
    unfolding reconciled_def Let_def by blast
qed

lemma didUpdate_region_change_inner:
  assumes "\<not> destroyed c" and "changedRegion c \<noteq> Some (region p)"
    and "selectionMode (state c) = PackageImages"
    and "componentDidUpdate e p c = (c', es)"
  shows "inner c' = Some \<lparr> capturedImage = valueProp p, innerImages = None, innerRegion = None \<rparr>"
  using assms
  by (auto simp: componentDidUpdate_def reaction_defs Let_def split: option.splits if_splits)

lemma didUpdate_inner_emits:
  assumes "\<not> destroyed c" and "pkgRegion c = Some (region p)"
    and "srchRegion c = Some (region p)" and "changedRegion c = Some (region p)"
    and "inner c = Some i" and "innerImages i = Some images" and "innerRegion i = None"
    and "componentDidUpdate e p c = (c', es)"
  shows "es = selectImage e p (findMatchingImage (inRegion (region p) images) (capturedImage i))"
  using assms
  by (auto simp: componentDidUpdate_def reaction_defs Let_def split: option.splits if_splits)

lemma settled_inner_emits:
  assumes "\<not> destroyed c" and "packagePromise c = Inr images"
    and "inner c = Some i" and "innerImages i = None" and "innerRegion i = Some r"
    and "pkgImages c = None \<longrightarrow> pkgRegion c = Some r"
    and "\<And>a b. sameObject e a b \<Longrightarrow> a = b"
    and "packageImagesSettled e c = (c', es)"
  shows "selectionAfter (valueProp (props c)) es
           = findMatchingImage (inRegion r images) (capturedImage i)"
  using assms(1-6,8) selectionAfter_one [OF assms(7), where p = "props c"]
    selectionAfter_both [OF assms(7), where p = "props c"]
  by (auto simp: packageImagesSettled_def settlePackageImages_def settleInner_def
      packageImagesEmit_def packageImagesSubscriber_def innerEmit_def andThen_def setState_def
      Let_def split: option.splits)

lemma settled_list_arrives:
  assumes "\<not> destroyed c" and "packagePromise c = Inr images"
    and "pkgImages c = None" and "pkgRegion c = Some r"
    and "\<not> (\<exists>i. inner c = Some i \<and> innerImages i = None \<and> innerRegion i \<noteq> None)"
    and "\<And>a b. sameObject e a b \<Longrightarrow> a = b"
    and "packageImagesSettled e c = (c', es)"
  shows "packageImages (state c') = Some (inRegion r images)"
    and "selectionAfter (valueProp (props c)) es
           = findMatchingImage (inRegion r images) (valueProp (props c))"
  using assms(1-5,7) selectionAfter_one [OF assms(6), where p = "props c"]
  by (auto simp: packageImagesSettled_def settlePackageImages_def settleInner_def
      packageImagesEmit_def packageImagesSubscriber_def innerEmit_def andThen_def setState_def
      Let_def split: option.splits)

lemma mount_together: "regionsTogether (fst (componentDidMount e p))"
  by (simp add: componentDidMount_def regionsTogether_def split: prod.splits)

lemma regionToInner_captured:
  "map_option capturedImage (inner (fst (regionToInner e r c))) = map_option capturedImage (inner c)"
  by (auto simp: regionToInner_def Let_def split: option.splits)

lemma settleInner_captured:
  "map_option capturedImage (inner (fst (settleInner e c))) = map_option capturedImage (inner c)"
  by (auto simp: settleInner_def packageImagesEmit_cases Let_def split: option.splits)

lemma didUpdate_together:
  "regionsTogether c \<Longrightarrow> regionsTogether (fst (componentDidUpdate e p c))"
  by (cases "destroyed c")
    (simp_all add: componentDidUpdate_def Let_def region_frames regionsTogether_def)

lemma regionsTogether_cong:
  assumes "regionsTogether c" and "pkgRegion c' = pkgRegion c"
    and "srchRegion c' = srchRegion c" and "changedRegion c' = changedRegion c"
    and "inner c' = None \<longleftrightarrow> inner c = None"
  shows "regionsTogether c'"
  using assms by (auto simp: regionsTogether_def)

lemma packageImagesSettled_inner:
  "map_option innerRegion (inner (fst (packageImagesSettled e c))) = map_option innerRegion (inner c)"
  "map_option capturedImage (inner (fst (packageImagesSettled e c)))
     = map_option capturedImage (inner c)"
  "pkgRegion (fst (packageImagesSettled e c)) = pkgRegion c"
  "srchRegion (fst (packageImagesSettled e c)) = srchRegion c"
  "changedRegion (fst (packageImagesSettled e c)) = changedRegion c"
  by (simp_all add: packageImagesSettled_def andThen_fst settlePackageImages_frame
      settleInner_frame settleInner_captured)

lemma step_together:
  assumes "regionsTogether c"
  shows "regionsTogether (fst (step e c ev))"
proof (cases ev)
  case (DidUpdate p)
  with assms show ?thesis by (simp add: step_def didUpdate_together)
next
  case PackageImagesSettled
  have "inner (fst (packageImagesSettled e c)) = None \<longleftrightarrow> inner c = None"
    using packageImagesSettled_inner(1) [of e c] by (metis option.map_disc_iff)
  with PackageImagesSettled show ?thesis
    by (auto simp: step_def packageImagesSettled_inner intro: regionsTogether_cong [OF assms])
qed (auto simp: step_def search_frames intro: regionsTogether_cong [OF assms])

lemma run_together:
  "regionsTogether c \<Longrightarrow> regionsTogether (run c evs)"
  by (induction c evs rule: run.induct) (simp_all add: step_together)

lemma reached_together:
  "regionsTogether (run (fst (componentDidMount initialEnv initialProps)) evs)"
  by (rule run_together) (rule mount_together)

lemma inner_regions_seen:
  assumes "regionsSynced c" and "regionsTogether c" and "inner c = Some i"
  shows "pkgRegion c = Some (region (props c))" and "srchRegion c = Some (region (props c))"
    and "changedRegion c = Some (region (props c))"
    and "innerRegion i \<noteq> None \<Longrightarrow> innerRegion i = Some (region (props c))"
  using assms by (auto simp: regionsSynced_def regionsTogether_def seenRegion_def)

lemma step_keeps_captured:
  assumes "regionsSynced c" and "regionsTogether c" and "\<not> destroyed c"
    and "inner c = Some i" and "\<forall>q. ev = DidUpdate q \<longrightarrow> region q = region (props c)"
  shows "map_option capturedImage (inner (fst (step e c ev))) = Some (capturedImage i)"
proof (cases ev)
  case (DidUpdate q)
  with assms(5) have same: "region q = region (props c)" by simp
  from inner_regions_seen(3) [OF assms(1,2,4)] same
  have seen: "changedRegion c = Some (region q)" by simp
  then have "changedRegion (fst (regionToPackageImages e (region q)
      (fst (regionToSearchImages (region q) (c\<lparr>props := q\<rparr>))))) = Some (region q)"
    by (simp add: region_frames)
  from regionToSwitchMap_inner(1) [OF this] assms(3,4) seen DidUpdate
  show ?thesis
    by (simp add: step_def componentDidUpdate_def Let_def regionToInner_captured
        region_frames)
next
  case PackageImagesSettled
  with assms(4) show ?thesis
    by (simp add: step_def packageImagesSettled_inner)
qed (simp_all add: step_def search_frames assms(4))

text \<open>
  C8, as stated, when another image is selected between the region change and the
  emission of the inner stream. The tools 2.1 image is selected when the region changes
  to \<^verbatim>\<open>us-west-2\<close>; then the tools 2.2 image is selected. Both are in the region-filtered
  package list, so the claim keeps the 2.2 image; when the inner stream emits, the
  component reports the 2.1 image, the one it captured at the region change.
\<close>

theorem package_mode_region_change_counterexample:
  "(let east = propsFor bothImage ''us-east-1'';
        c = runWith pairReader (fst (componentDidMount pairReader east))
              [DidUpdate east, PackageImagesSettled,
               DidUpdate (propsFor bothImage ''us-west-2''),
               DidUpdate (propsFor otherImage ''us-west-2'')];
        es = snd (packageImagesSettled pairReader c)
    in selectionMode (state c) = PackageImages
       \<and> region (props c) = ''us-west-2'' \<and> valueProp (props c) = Obj otherImage
       \<and> packageImages (state c) = Some [bothImage, otherImage]
       \<and> es = [OnChange (Obj bothImage)]
       \<and> selectionAfter (valueProp (props c)) es \<noteq> Obj otherImage)"
  unfolding Let_def by (simp add: model_defs Let_def)

text \<open>
  C8, amended. In packageImages mode (two values that are the same object having the
  same contents), the selection is reconciled with the region-filtered package images
  by name; reconciled means: cleared when no image of the filtered list has the name
  looked for, and otherwise the first image of the filtered list with that name.
  \<^item> When the region changes, the inner stream of lines 182-195 is subscribed and
    captures the selected image. With the package images loaded, the package images
    of the state become the loaded list filtered to the new region and the selection
    is reconciled with it at once; with the package images still loading, nothing is
    reported yet.
  \<^item> When the package promise settles and the inner stream has seen the region, the
    selection is reconciled for the image the inner stream captured, whatever is
    selected by then. Otherwise, when the list arrives at the subscriber of line 176,
    the selection of the moment is reconciled.
  \<^item> When the inner stream has the list and then sees the region, the selection is
    reconciled for the captured image.
  \<^item> Until the region changes again, the inner stream keeps the image it captured.
\<close>

theorem package_mode_region_change:
  assumes "c = run (fst (componentDidMount initialEnv initialProps)) evs"
    and "\<not> destroyed c" and "selectionMode (state c) = PackageImages"
    and "\<forall>a b. sameObject e a b \<longrightarrow> a = b"
  shows "(region p \<noteq> region (props c) \<and> componentDidUpdate e p c = (c', es) \<longrightarrow>
            inner c' = Some \<lparr> capturedImage = valueProp p, innerImages = None,
                                innerRegion = None \<rparr>
            \<and> (pkgImages c = None \<longrightarrow> es = [])
            \<and> (\<forall>images. pkgImages c = Some images \<longrightarrow>
                  packageImages (state c') = Some (inRegion (region p) images)
                  \<and> reconciled (inRegion (region p) images) (valueProp p) (valueProp p) es))
       \<and> (packagePromise c = Inr loaded \<and> packageImagesSettled e c = (c', es) \<longrightarrow>
            (\<forall>i. inner c = Some i \<and> innerImages i = None \<and> innerRegion i \<noteq> None \<longrightarrow>
               reconciled (inRegion (region (props c)) loaded) (capturedImage i)
                 (valueProp (props c)) es)
            \<and> (pkgImages c = None \<and> pkgRegion c \<noteq> None
                 \<and> \<not> (\<exists>i. inner c = Some i \<and> innerImages i = None \<and> innerRegion i \<noteq> None) \<longrightarrow>
               packageImages (state c') = Some (inRegion (region (props c)) loaded)
               \<and> reconciled (inRegion (region (props c)) loaded) (valueProp (props c))
                   (valueProp (props c)) es))
       \<and> (region p = region (props c) \<and> componentDidUpdate e p c = (c', es) \<longrightarrow>
            (\<forall>i images. inner c = Some i \<and> innerImages i = Some images \<and> innerRegion i = None \<longrightarrow>
               reconciled (inRegion (region p) images) (capturedImage i) (valueProp p) es))
       \<and> (step e c ev = (c', es) \<and> (\<forall>q. ev = DidUpdate q \<longrightarrow> region q = region (props c)) \<longrightarrow>
            (\<forall>i. inner c = Some i \<longrightarrow>
               (\<exists>i'. inner c' = Some i' \<and> capturedImage i' = capturedImage i)))"
    (is "?changes \<and> ?settles \<and> ?later \<and> ?keeps")
proof -
  have synced: "regionsSynced c" and together: "regionsTogether c"
    unfolding assms(1) by (rule reached_synced, rule reached_together)
  have same: "a = b" if "sameObject e a b" for a b
    using that assms(4) by blast
  have changes: "inner c' = Some \<lparr> capturedImage = valueProp p, innerImages = None,
                                innerRegion = None \<rparr>
            \<and> (pkgImages c = None \<longrightarrow> es = [])
            \<and> (\<forall>images. pkgImages c = Some images \<longrightarrow>
                  packageImages (state c') = Some (inRegion (region p) images)
                  \<and> reconciled (inRegion (region p) images) (valueProp p) (valueProp p) es)"
    if changed: "region p \<noteq> region (props c)" and upd: "componentDidUpdate e p c = (c', es)"
  proof -
    note seen = region_changed [OF synced changed]
    note facts = didUpdate_region_change [OF assms(2) seen upd]
    from didUpdate_region_change_inner [OF assms(2) seen(3) assms(3) upd]
    have captured: "inner c' = Some \<lparr> capturedImage = valueProp p, innerImages = None,
        innerRegion = None \<rparr>" .
    from facts(1) assms(3) have waiting: "es = []" if "pkgImages c = None"
      using that by simp
    have loaded: "packageImages (state c') = Some (inRegion (region p) images)
        \<and> reconciled (inRegion (region p) images) (valueProp p) (valueProp p) es"
      if images: "pkgImages c = Some images" for images
    proof -
      from facts(1) assms(3) images
      have "es = selectImage e p (findMatchingImage (inRegion (region p) images) (valueProp p))"
        by simp
      then have "selectionAfter (valueProp p) es
          = findMatchingImage (inRegion (region p) images) (valueProp p)"
        by (simp add: selectionAfter_one [OF same])
      then have "reconciled (inRegion (region p) images) (valueProp p) (valueProp p) es"
        by (rule reconciledI)
      with facts(2) images show ?thesis by simp
    qed
    from captured waiting loaded show ?thesis by blast
  qed
  have settles: "(\<forall>i. inner c = Some i \<and> innerImages i = None \<and> innerRegion i \<noteq> None \<longrightarrow>
               reconciled (inRegion (region (props c)) loaded) (capturedImage i)
                 (valueProp (props c)) es)
            \<and> (pkgImages c = None \<and> pkgRegion c \<noteq> None
                 \<and> \<not> (\<exists>i. inner c = Some i \<and> innerImages i = None \<and> innerRegion i \<noteq> None) \<longrightarrow>
               packageImages (state c') = Some (inRegion (region (props c)) loaded)
               \<and> reconciled (inRegion (region (props c)) loaded) (valueProp (props c))
                   (valueProp (props c)) es)"
    if promise: "packagePromise c = Inr loaded" and settled: "packageImagesSettled e c = (c', es)"
  proof -
    have emits: "reconciled (inRegion (region (props c)) loaded) (capturedImage i)
        (valueProp (props c)) es"
      if i: "inner c = Some i" "innerImages i = None" "innerRegion i \<noteq> None" for i
    proof -
      note seen = inner_regions_seen [OF synced together i(1)]
      from seen(4) [OF i(3)] have r: "innerRegion i = Some (region (props c))" .
      from seen(1) have "pkgImages c = None \<longrightarrow> pkgRegion c = Some (region (props c))"
        by simp
      from settled_inner_emits [OF assms(2) promise i(1,2) r this same settled]
      show ?thesis by (rule reconciledI)
    qed
    have arrives: "packageImages (state c') = Some (inRegion (region (props c)) loaded)
        \<and> reconciled (inRegion (region (props c)) loaded) (valueProp (props c))
            (valueProp (props c)) es"
      if none: "pkgImages c = None" and seen: "pkgRegion c \<noteq> None"
        and quiet: "\<not> (\<exists>i. inner c = Some i \<and> innerImages i = None \<and> innerRegion i \<noteq> None)"
    proof -
      from synced seen have r: "pkgRegion c = Some (region (props c))"
        by (auto simp: regionsSynced_def seenRegion_def)
      note facts = settled_list_arrives [OF assms(2) promise none r quiet same settled]
      from facts(2) have "reconciled (inRegion (region (props c)) loaded) (valueProp (props c))
          (valueProp (props c)) es"
        by (rule reconciledI)
      with facts(1) show ?thesis by simp
    qed
    from emits arrives show ?thesis by blast
  qed
  have later: "\<forall>i images. inner c = Some i \<and> innerImages i = Some images \<and> innerRegion i = None \<longrightarrow>
               reconciled (inRegion (region p) images) (capturedImage i) (valueProp p) es"
    if unchanged: "region p = region (props c)" and upd: "componentDidUpdate e p c = (c', es)"
  proof (intro allI impI)
    fix i images
    assume "inner c = Some i \<and> innerImages i = Some images \<and> innerRegion i = None"
    then have i: "inner c = Some i" "innerImages i = Some images" "innerRegion i = None"
      by simp_all
    note seen = inner_regions_seen(1-3) [OF synced together i(1), folded unchanged]
    from didUpdate_inner_emits [OF assms(2) seen i upd]
    have "selectionAfter (valueProp p) es
        = findMatchingImage (inRegion (region p) images) (capturedImage i)"
      by (simp add: selectionAfter_one [OF same])
    then show "reconciled (inRegion (region p) images) (capturedImage i) (valueProp p) es"
      by (rule reconciledI)
  qed
  have keeps: "\<forall>i. inner c = Some i \<longrightarrow>
               (\<exists>i'. inner c' = Some i' \<and> capturedImage i' = capturedImage i)"
    if stepped: "step e c ev = (c', es)"
      and unchanged: "\<forall>q. ev = DidUpdate q \<longrightarrow> region q = region (props c)"
  proof (intro allI impI)
    fix i
    assume i: "inner c = Some i"
    from step_keeps_captured [OF synced together assms(2) i unchanged, of e] stepped
    have "map_option capturedImage (inner c') = Some (capturedImage i)"
      by simp
    then show "\<exists>i'. inner c' = Some i' \<and> capturedImage i' = capturedImage i"
      by auto
  qed
  have "?changes" by (intro impI, elim conjE, rule changes)
  moreover have "?settles" by (intro impI, elim conjE, rule settles)
  moreover have "?later" by (intro impI, elim conjE, rule later)
  moreover have "?keeps" by (intro impI, elim conjE, rule keeps)
  ultimately show ?thesis by (intro conjI)
qed

theorem package_mode_region_change_witness:
  "(let east = propsFor bothImage ''us-east-1'';
        west = propsFor bothImage ''us-west-2'';
        loaded = runWith pairReader (fst (componentDidMount pairReader east))
                   [DidUpdate east, PackageImagesSettled];
        changed = componentDidUpdate pairReader west loaded;
        stale = runWith pairReader (fst (componentDidMount pairReader east))
                  [DidUpdate east, PackageImagesSettled, DidUpdate west,
                   DidUpdate (propsFor otherImage ''us-west-2'')];
        settled = packageImagesSettled pairReader stale
    in \<not> destroyed loaded \<and> selectionMode (state loaded) = PackageImages
       \<and> region west \<noteq> region (props loaded)
       \<and> pkgImages loaded = Some [bothImage, otherImage]
       \<and> inner (fst changed) = Some \<lparr> capturedImage = Obj bothImage, innerImages = None,
                                         innerRegion = None \<rparr>
       \<and> packageImages (state (fst changed)) = Some [bothImage, otherImage]
       \<and> selectionAfter (Obj bothImage) (snd changed) = Obj bothImage
       \<and> \<not> destroyed stale \<and> selectionMode (state stale) = PackageImages
       \<and> packagePromise stale = Inr [bothImage, otherImage]
       \<and> inner stale = Some \<lparr> capturedImage = Obj bothImage, innerImages = None,
                                 innerRegion = Some ''us-west-2'' \<rparr>
       \<and> valueProp (props stale) = Obj otherImage
       \<and> selectionAfter (Obj otherImage) (snd settled) = Obj bothImage)"
proof -
  let ?east = "propsFor bothImage ''us-east-1''"
  let ?west = "propsFor bothImage ''us-west-2''"
  let ?loaded = "runWith pairReader (fst (componentDidMount pairReader ?east))
                   [DidUpdate ?east, PackageImagesSettled]"
  let ?changed = "componentDidUpdate pairReader ?west ?loaded"
  let ?stale = "runWith pairReader (fst (componentDidMount pairReader ?east))
                  [DidUpdate ?east, PackageImagesSettled, DidUpdate ?west,
                   DidUpdate (propsFor otherImage ''us-west-2'')]"
  let ?settled = "packageImagesSettled pairReader ?stale"
  let ?i = "\<lparr> capturedImage = Obj bothImage, innerImages = None,
             innerRegion = Some ''us-west-2'' \<rparr>"
  have same: "\<forall>a b. sameObject pairReader a b \<longrightarrow> a = b"
    by (simp add: pairReader_def)
  have loaded: "\<not> destroyed ?loaded" "selectionMode (state ?loaded) = PackageImages"
    and changed: "region ?west \<noteq> region (props ?loaded) \<and> ?changed = (fst ?changed, snd ?changed)"
    and list: "pkgImages ?loaded = Some [bothImage, otherImage]"
    by (simp_all add: model_defs Let_def)
  have stale: "\<not> destroyed ?stale" "selectionMode (state ?stale) = PackageImages"
    and settled: "packagePromise ?stale = Inr [bothImage, otherImage]
                    \<and> ?settled = (fst ?settled, snd ?settled)"
    and captured: "inner ?stale = Some ?i \<and> innerImages ?i = None \<and> innerRegion ?i \<noteq> None"
    and selected: "valueProp (props ?stale) = Obj otherImage" "region (props ?stale) = ''us-west-2''"
    by (simp_all add: model_defs Let_def)
  have shape: "valueProp ?west = Obj bothImage" "region ?west = ''us-west-2''"
    "inRegion ''us-west-2'' [bothImage, otherImage] = [bothImage, otherImage]"
    "capturedImage ?i = Obj bothImage"
    by (simp_all add: model_defs Let_def)
  note t = package_mode_region_change [OF refl]
  note first = t [OF loaded same, THEN conjunct1, rule_format, OF changed]
  note second = t [OF stale same, THEN conjunct2, THEN conjunct1, rule_format, OF settled]
  from first [THEN conjunct1]
  have r1: "inner (fst ?changed) = Some \<lparr> capturedImage = Obj bothImage, innerImages = None,
      innerRegion = None \<rparr>"
    unfolding shape .
  from first [THEN conjunct2, THEN conjunct2, rule_format, OF list]
  have r2: "packageImages (state (fst ?changed)) = Some [bothImage, otherImage]
      \<and> reconciled [bothImage, otherImage] (Obj bothImage) (Obj bothImage) (snd ?changed)"
    unfolding shape .
  from second [THEN conjunct1, rule_format, OF captured]
  have r3: "reconciled [bothImage, otherImage] (Obj bothImage) (Obj otherImage) (snd ?settled)"
    unfolding shape selected .
  have first_found: "find (\<lambda>img. imageName bothImage = imageName img) [bothImage, otherImage]
      = Some bothImage"
    by simp
  from r2 r3 first_found
  have "selectionAfter (Obj bothImage) (snd ?changed) = Obj bothImage"
    and "selectionAfter (Obj otherImage) (snd ?settled) = Obj bothImage"
    unfolding reconciled_def Let_def by auto
  with loaded changed list r1 r2 stale settled captured selected show ?thesis
    unfolding Let_def by (simp del: run.simps)
qed

subsection \<open>Region changes and the two lists\<close>

lemma inRegion_own_entries:
  "r \<notin> set objectPrototypeMembers \<Longrightarrow>
     inRegion r images = filter (\<lambda>img. amis img r \<noteq> None) images"
  by (simp add: inRegion_def truthyAmis_def)

text \<open>
  C6, as stated, in two situations. After a search for \<^verbatim>\<open>ami-12345678\<close> that found
  nothing, the raw search list is empty, and when the region changes the search results
  are not the filtered raw list but the one synthesized image, for the new region. And
  when the region changes to \<^verbatim>\<open>toString\<close>, the name of a member of \<^verbatim>\<open>Object.prototype\<close>,
  the package images keep an image that has no \<^verbatim>\<open>amis\<close> entry for that region.
\<close>

theorem region_change_refilters_counterexample:
  "(let east = propsFor eastImage ''us-east-1'';
        c = runWith quietReader (fst (componentDidMount quietReader east))
              [DidUpdate east, SearchInput ''ami-12345678'', DebounceElapsed, SearchSettled];
        p = propsFor eastImage ''us-west-2'';
        c' = fst (componentDidUpdate quietReader p c);
        loaded = runWith quietReader (fst (componentDidMount quietReader east))
                   [DidUpdate east, PackageImagesSettled];
        q = propsFor eastImage ''toString'';
        loaded' = fst (componentDidUpdate quietReader q loaded)
    in region p \<noteq> region (props c) \<and> srchImages c = Some []
       \<and> searchResults (state c') \<noteq> Some (filter (\<lambda>img. amis img (region p) \<noteq> None) [])
       \<and> searchResults (state c') =
           Some [\<lparr> imageName = ''ami-12345678'',
                   amis = [''us-west-2'' \<mapsto> [''ami-12345678'']],
                   attributes = [''virtualizationType'' \<mapsto> ''*''] \<rparr>]
       \<and> region q \<noteq> region (props loaded) \<and> pkgImages loaded = Some [eastImage]
       \<and> amis eastImage (region q) = None
       \<and> packageImages (state loaded') = Some [eastImage]
       \<and> packageImages (state loaded')
           \<noteq> Some (filter (\<lambda>img. amis img (region q) \<noteq> None) [eastImage]))"
  unfolding Let_def by (simp add: model_defs Let_def)

text \<open>
  C6, amended. When the region changes, no call to the reader is issued and the raw
  lists and promises stay as they are. When the new region is not the name of a member
  of \<^verbatim>\<open>Object.prototype\<close>, the package images of the state become the raw package list
  filtered to the images that have an \<^verbatim>\<open>amis\<close> entry for the new region, and the search
  results become the raw search list filtered in the same way, except when that list is
  empty and the search string of the state contains an \<^verbatim>\<open>ami-\<close> identifier: then they
  are the one synthesized image for the new region.
\<close>

theorem region_change_refilters:
  assumes "c = run (fst (componentDidMount initialEnv initialProps)) evs"
    and "\<not> destroyed c" and "region p \<noteq> region (props c)"
    and "componentDidUpdate e p c = (c', es)"
  shows "readerCalls es = []
       \<and> pkgImages c' = pkgImages c \<and> srchImages c' = srchImages c
       \<and> packagePromise c' = packagePromise c \<and> searchPromise c' = searchPromise c
       \<and> (region p \<notin> set objectPrototypeMembers \<longrightarrow>
            (\<forall>images. pkgImages c = Some images \<longrightarrow>
               packageImages (state c') =
                 Some (filter (\<lambda>img. amis img (region p) \<noteq> None) images))
            \<and> (\<forall>results. srchImages c = Some results \<longrightarrow>
                 searchResults (state c') =
                   Some (if results = [] \<and> amiRegexExec (searchString (state c))
                         then [\<lparr> imageName = searchString (state c),
                                 amis = [region p \<mapsto> [searchString (state c)]],
                                 attributes = [''virtualizationType'' \<mapsto> ''*''] \<rparr>]
                         else filter (\<lambda>img. amis img (region p) \<noteq> None) results)))"
proof -
  have synced: "regionsSynced c"
    unfolding assms(1) by (rule reached_synced)
  note changed = region_changed [OF synced assms(3)]
  note upd = didUpdate_region_change [OF assms(2) changed assms(4)]
  from upd(1) have calls: "readerCalls es = []"
    by (simp add: readerCalls_simps split: option.splits)
  have package: "packageImages (state c') = Some (filter (\<lambda>img. amis img (region p) \<noteq> None) images)"
    if "region p \<notin> set objectPrototypeMembers" and "pkgImages c = Some images" for images
    using upd(2) that by (simp add: inRegion_own_entries)
  have search: "searchResults (state c') =
      Some (if results = [] \<and> amiRegexExec (searchString (state c))
            then [\<lparr> imageName = searchString (state c),
                    amis = [region p \<mapsto> [searchString (state c)]],
                    attributes = [''virtualizationType'' \<mapsto> ''*''] \<rparr>]
            else filter (\<lambda>img. amis img (region p) \<noteq> None) results)"
    if "region p \<notin> set objectPrototypeMembers" and "srchImages c = Some results" for results
    using upd(3) that by (simp add: searchImagesInRegion_cases inRegion_own_entries)
  from calls upd(4-7) package search show ?thesis
    by (intro conjI impI allI) assumption+
qed

theorem region_change_refilters_witness:
  "(let east = propsFor bothImage ''us-east-1'';
        c = runWith quietReader (fst (componentDidMount quietReader east))
              [DidUpdate east, PackageImagesSettled,
               SearchInput ''ami-12345678'', DebounceElapsed, SearchSettled];
        p = propsFor bothImage ''us-west-2'';
        update = componentDidUpdate quietReader p c
    in \<not> destroyed c \<and> region p \<noteq> region (props c)
       \<and> region p \<notin> set objectPrototypeMembers
       \<and> pkgImages c = Some [bothImage] \<and> srchImages c = Some []
       \<and> readerCalls (snd update) = []
       \<and> packageImages (state (fst update)) = Some [bothImage]
       \<and> searchResults (state (fst update)) =
           Some [\<lparr> imageName = ''ami-12345678'',
                   amis = [''us-west-2'' \<mapsto> [''ami-12345678'']],
                   attributes = [''virtualizationType'' \<mapsto> ''*''] \<rparr>])"
proof -
  let ?east = "propsFor bothImage ''us-east-1''"
  let ?c = "runWith quietReader (fst (componentDidMount quietReader ?east))
              [DidUpdate ?east, PackageImagesSettled,
               SearchInput ''ami-12345678'', DebounceElapsed, SearchSettled]"
  let ?p = "propsFor bothImage ''us-west-2''"
  have h: "\<not> destroyed ?c" "region ?p \<noteq> region (props ?c)"
    and plain: "region ?p \<notin> set objectPrototypeMembers"
    by (simp_all add: model_defs Let_def)
  have shape: "pkgImages ?c = Some [bothImage]" "srchImages ?c = Some []"
    "searchString (state ?c) = ''ami-12345678''" "amiRegexExec ''ami-12345678''"
    "filter (\<lambda>img. amis img (region ?p) \<noteq> None) [bothImage] = [bothImage]"
    "region ?p = ''us-west-2''"
    by (simp_all add: model_defs Let_def)
  from region_change_refilters [OF refl h surjective_pairing] h plain shape
  show ?thesis
    unfolding Let_def by (simp del: run.simps)
qed

subsection \<open>Failing fetches\<close>

lemma loadImagesFromImageId_cases:
  "\<exists>images. snd (loadImagesFromImageId e i r cr) = Inr images"
  "getImage e i r cr = Inl err \<Longrightarrow> loadImagesFromImageId e i r cr = ([GetImage i r cr], Inr [])"
  "getImage e i r cr = Inr (Obj x) \<Longrightarrow> buildQueryForSimilarImages (imageName x) = Some q
     \<Longrightarrow> findImages e q = Inl err
     \<Longrightarrow> loadImagesFromImageId e i r cr = ([GetImage i r cr, FindImages q], Inr [])"
  by (auto simp: loadImagesFromImageId_def findImagesSimilarTo_def
      split: sum.splits prod.splits js.splits option.splits)

lemma mount_packagePromise:
  "packagePromise (fst (componentDidMount e initialProps)) =
     snd (fetchPackageImages e (valueProp initialProps) (region initialProps) (credentials initialProps) (application initialProps))"
  by (simp add: componentDidMount_def split: prod.splits)

lemma packageImagesSettled_failure:
  assumes "\<not> destroyed c" and "pkgImages c = None" and "packagePromise c = Inl err"
    and "packageImagesSettled e c = (c', es)"
  shows "errorMessage (state c') = Some ''Unable to load package images''"
    and "pkgImages c' = Some []" and "\<not> isLoadingPackageImages (state c')"
    and "ConsoleError err \<in> set es"
    and "pkgRegion c \<noteq> None \<longrightarrow> packageImages (state c') = Some []"
  using assms
  by (auto simp: packageImagesSettled_def settlePackageImages_def settleInner_def
      packageImagesEmit_def packageImagesSubscriber_def andThen_def setState_def inRegion_def
      Let_def split: option.splits)

lemma search_failure:
  assumes "\<not> destroyed d" and "searchOpen d" and "debounced d = Some query"
    and "snd (searchForImages e query) = Inl err"
  shows "errorMessage (state (runWith e d [DebounceElapsed, SearchSettled])) =
           Some ''Unable to search for images''"
    and "srchImages (runWith e d [DebounceElapsed, SearchSettled]) = Some []"
    and "\<not> isSearching (state (runWith e d [DebounceElapsed, SearchSettled]))"
    and "snd (step e (fst (step e d DebounceElapsed)) SearchSettled) = [ConsoleError err]"
  using assms
  by (auto simp: step_def debounceElapsed_def searchSettled_def searchImagesEmit_def
      searchImagesSubscriber_def setState_def Let_def split: option.splits prod.splits)

text \<open>
  C4, as stated, for a selected image with an identifier in the region and a reader
  whose calls all fail: \<^verbatim>\<open>getImage\<close> is called and rejected, the package images are the
  empty list, and no error message is recorded.
\<close>

theorem fetch_failures_caught_counterexample:
  "(let initialProps = propsFor eastImage ''us-east-1'';
        mounted = componentDidMount failingReader initialProps;
        c = runWith failingReader (fst mounted) [DidUpdate initialProps, PackageImagesSettled]
    in snd mounted = [Call (GetImage ''ami-11111111'' ''us-east-1'' ''test'')]
       \<and> getImage failingReader ''ami-11111111'' ''us-east-1'' ''test'' = Inl (Rejected ''404'')
       \<and> errorMessage (state c) = None
       \<and> pkgImages c = Some [] \<and> packageImages (state c) = Some [])"
  unfolding Let_def by (simp add: model_defs Let_def)

text \<open>
  C4, amended. No failing fetch leaves the component with a rejected promise, and each
  gives the empty list. In the load by image identifier, a rejected \<^verbatim>\<open>getImage\<close> and a
  rejected search for similar images both resolve to the empty list (no error message
  is involved). When the search by application name is rejected, the settled package
  images are the empty list, the failure is logged, the loading flag is cleared and the
  error message is \<^verbatim>\<open>Unable to load package images\<close>. When a search is rejected, the
  search result is the empty list, the failure is logged, the searching flag is cleared
  and the error message is \<^verbatim>\<open>Unable to search for images\<close>.
\<close>

theorem fetch_failures_caught:
  "(firstImageId v r = Some i \<longrightarrow>
      (\<exists>images. snd (fetchPackageImages e v r cr app) = Inr images)
      \<and> (getImage e i r cr = Inl err \<longrightarrow>
           fetchPackageImages e v r cr app = ([GetImage i r cr], Inr []))
      \<and> (getImage e i r cr = Inr (Obj x) \<and> buildQueryForSimilarImages (imageName x) = Some q
           \<and> findImages e q = Inl err \<longrightarrow>
           fetchPackageImages e v r cr app = ([GetImage i r cr, FindImages q], Inr [])))
   \<and> (c = run (fst (componentDidMount initialEnv initialProps)) evs \<and> \<not> destroyed c \<and> pkgImages c = None
        \<and> firstImageId (valueProp initialProps) (region initialProps) = None
        \<and> snd (loadImagesFromApplicationName initialEnv (application initialProps)) = Inl err
        \<and> packageImagesSettled e c = (c', es) \<longrightarrow>
        errorMessage (state c') = Some ''Unable to load package images''
        \<and> pkgImages c' = Some [] \<and> \<not> isLoadingPackageImages (state c')
        \<and> ConsoleError err \<in> set es
        \<and> (pkgRegion c \<noteq> None \<longrightarrow> packageImages (state c') = Some []))
   \<and> (\<not> destroyed d \<and> searchOpen d \<and> debounced d = Some query
        \<and> snd (searchForImages e query) = Inl err \<longrightarrow>
        errorMessage (state (runWith e d [DebounceElapsed, SearchSettled])) =
          Some ''Unable to search for images''
        \<and> srchImages (runWith e d [DebounceElapsed, SearchSettled]) = Some []
        \<and> \<not> isSearching (state (runWith e d [DebounceElapsed, SearchSettled]))
        \<and> snd (step e (fst (step e d DebounceElapsed)) SearchSettled) = [ConsoleError err])"
proof -
  have package: "(\<exists>images. snd (fetchPackageImages e v r cr app) = Inr images)
      \<and> (getImage e i r cr = Inl err \<longrightarrow>
           fetchPackageImages e v r cr app = ([GetImage i r cr], Inr []))
      \<and> (getImage e i r cr = Inr (Obj x) \<and> buildQueryForSimilarImages (imageName x) = Some q
           \<and> findImages e q = Inl err \<longrightarrow>
           fetchPackageImages e v r cr app = ([GetImage i r cr, FindImages q], Inr []))"
    if "firstImageId v r = Some i"
    using that by (simp add: fetchPackageImages_def loadImagesFromImageId_cases)
  have byName: "errorMessage (state c') = Some ''Unable to load package images''
        \<and> pkgImages c' = Some [] \<and> \<not> isLoadingPackageImages (state c')
        \<and> ConsoleError err \<in> set es
        \<and> (pkgRegion c \<noteq> None \<longrightarrow> packageImages (state c') = Some [])"
    if a: "c = run (fst (componentDidMount initialEnv initialProps)) evs \<and> \<not> destroyed c \<and> pkgImages c = None
        \<and> firstImageId (valueProp initialProps) (region initialProps) = None
        \<and> snd (loadImagesFromApplicationName initialEnv (application initialProps)) = Inl err
        \<and> packageImagesSettled e c = (c', es)"
  proof -
    from a have alive: "\<not> destroyed c" and waiting: "pkgImages c = None"
      and settled: "packageImagesSettled e c = (c', es)"
      and reached: "c = run (fst (componentDidMount initialEnv initialProps)) evs"
      and byName: "firstImageId (valueProp initialProps) (region initialProps) = None"
      and failed: "snd (loadImagesFromApplicationName initialEnv (application initialProps)) = Inl err"
      by blast+
    from byName failed have "packagePromise c = Inl err"
      unfolding reached
      by (simp add: run_packagePromise mount_packagePromise fetchPackageImages_def)
    from packageImagesSettled_failure [OF alive waiting this settled]
    show ?thesis by simp
  qed
  have search: "errorMessage (state (runWith e d [DebounceElapsed, SearchSettled])) =
          Some ''Unable to search for images''
        \<and> srchImages (runWith e d [DebounceElapsed, SearchSettled]) = Some []
        \<and> \<not> isSearching (state (runWith e d [DebounceElapsed, SearchSettled]))
        \<and> snd (step e (fst (step e d DebounceElapsed)) SearchSettled) = [ConsoleError err]"
    if "\<not> destroyed d \<and> searchOpen d \<and> debounced d = Some query
        \<and> snd (searchForImages e query) = Inl err"
  proof -
    from that have d: "\<not> destroyed d" "searchOpen d" "debounced d = Some query"
      "snd (searchForImages e query) = Inl err"
      by blast+
    from search_failure [OF d] show ?thesis by simp
  qed
  from package byName search show ?thesis by blast
qed

theorem fetch_failures_caught_witness:
  "(let initialProps = propsFor eastImage ''eu-west-1'';
        app = \<lparr> name = ''my_app'' \<rparr>;
        c = runWith failingReader (fst (componentDidMount failingReader initialProps)) [DidUpdate initialProps];
        loaded = packageImagesSettled failingReader c;
        d = runWith failingReader (fst (componentDidMount failingReader initialProps))
              [DidUpdate initialProps, SearchInput ''abc''];
        d' = runWith failingReader d [DebounceElapsed, SearchSettled];
        similarFails = failingReader\<lparr>getImage := (\<lambda>i r c. Inr (Obj eastImage))\<rparr>
    in firstImageId (Obj eastImage) ''us-east-1'' = Some ''ami-11111111''
       \<and> getImage failingReader ''ami-11111111'' ''us-east-1'' ''test'' = Inl (Rejected ''404'')
       \<and> fetchPackageImages failingReader (Obj eastImage) ''us-east-1'' ''test'' app
           = ([GetImage ''ami-11111111'' ''us-east-1'' ''test''], Inr [])
       \<and> findImages similarFails ''myapp-*'' = Inl (Rejected ''503'')
       \<and> fetchPackageImages similarFails (Obj eastImage) ''us-east-1'' ''test'' app
           = ([GetImage ''ami-11111111'' ''us-east-1'' ''test'', FindImages ''myapp-*''], Inr [])
       \<and> \<not> destroyed c \<and> pkgImages c = None \<and> pkgRegion c \<noteq> None
       \<and> firstImageId (valueProp initialProps) (region initialProps) = None
       \<and> snd (loadImagesFromApplicationName failingReader (application initialProps)) = Inl (Rejected ''503'')
       \<and> errorMessage (state (fst loaded)) = Some ''Unable to load package images''
       \<and> pkgImages (fst loaded) = Some [] \<and> packageImages (state (fst loaded)) = Some []
       \<and> \<not> isLoadingPackageImages (state (fst loaded))
       \<and> ConsoleError (Rejected ''503'') \<in> set (snd loaded)
       \<and> \<not> destroyed d \<and> searchOpen d \<and> debounced d = Some ''abc''
       \<and> snd (searchForImages failingReader ''abc'') = Inl (Rejected ''503'')
       \<and> errorMessage (state d') = Some ''Unable to search for images''
       \<and> srchImages d' = Some [] \<and> \<not> isSearching (state d'))"
proof -
  let ?p0 = "propsFor eastImage ''eu-west-1''"
  let ?app = "\<lparr> name = ''my_app'' \<rparr>"
  let ?c = "runWith failingReader (fst (componentDidMount failingReader ?p0)) [DidUpdate ?p0]"
  let ?d = "runWith failingReader (fst (componentDidMount failingReader ?p0))
              [DidUpdate ?p0, SearchInput ''abc'']"
  let ?similarFails = "failingReader\<lparr>getImage := (\<lambda>i r c. Inr (Obj eastImage))\<rparr>"
  have id: "firstImageId (Obj eastImage) ''us-east-1'' = Some ''ami-11111111''"
    and rejected: "getImage failingReader ''ami-11111111'' ''us-east-1'' ''test'' = Inl (Rejected ''404'')"
    and similar: "getImage ?similarFails ''ami-11111111'' ''us-east-1'' ''test'' = Inr (Obj eastImage)"
      "buildQueryForSimilarImages (imageName eastImage) = Some ''myapp-*''"
      "findImages ?similarFails ''myapp-*'' = Inl (Rejected ''503'')"
    and c: "\<not> destroyed ?c" "pkgImages ?c = None" "pkgRegion ?c \<noteq> None"
      "firstImageId (valueProp ?p0) (region ?p0) = None"
      "snd (loadImagesFromApplicationName failingReader (application ?p0)) = Inl (Rejected ''503'')"
    and d: "\<not> destroyed ?d" "searchOpen ?d" "debounced ?d = Some ''abc''"
      "snd (searchForImages failingReader ''abc'') = Inl (Rejected ''503'')"
    by (simp_all add: model_defs Let_def)
  from fetch_failures_caught [where e = failingReader and v = "Obj eastImage"
      and r = "''us-east-1''" and i = "''ami-11111111''" and cr = "''test''" and app = ?app
      and err = "Rejected ''404''"] id rejected
  have first: "fetchPackageImages failingReader (Obj eastImage) ''us-east-1'' ''test'' ?app
      = ([GetImage ''ami-11111111'' ''us-east-1'' ''test''], Inr [])"
    by blast
  from fetch_failures_caught [where e = ?similarFails and v = "Obj eastImage"
      and r = "''us-east-1''" and i = "''ami-11111111''" and cr = "''test''" and app = ?app
      and err = "Rejected ''503''" and x = eastImage and q = "''myapp-*''"] id similar
  have second: "fetchPackageImages ?similarFails (Obj eastImage) ''us-east-1'' ''test'' ?app
      = ([GetImage ''ami-11111111'' ''us-east-1'' ''test'', FindImages ''myapp-*''], Inr [])"
    by blast
  from fetch_failures_caught [where e = failingReader and initialEnv = failingReader
      and c = ?c and initialProps = ?p0
      and evs = "map (Pair failingReader) [DidUpdate ?p0]" and err = "Rejected ''503''"
      and c' = "fst (packageImagesSettled failingReader ?c)" and es = "snd (packageImagesSettled failingReader ?c)"
      and d = ?d and query = "''abc''"] c d
  have third: "errorMessage (state (fst (packageImagesSettled failingReader ?c))) = Some ''Unable to load package images''
      \<and> pkgImages (fst (packageImagesSettled failingReader ?c)) = Some []
      \<and> packageImages (state (fst (packageImagesSettled failingReader ?c))) = Some []
      \<and> \<not> isLoadingPackageImages (state (fst (packageImagesSettled failingReader ?c)))
      \<and> ConsoleError (Rejected ''503'') \<in> set (snd (packageImagesSettled failingReader ?c))
      \<and> errorMessage (state (runWith failingReader ?d [DebounceElapsed, SearchSettled])) =
          Some ''Unable to search for images''
      \<and> srchImages (runWith failingReader ?d [DebounceElapsed, SearchSettled]) = Some []
      \<and> \<not> isSearching (state (runWith failingReader ?d [DebounceElapsed, SearchSettled]))"
    by (simp del: run.simps)
  from id rejected first similar(3) second c d third show ?thesis
    unfolding Let_def by (simp del: run.simps)
qed

end
